theory Spec2Isabelle
  imports Main "HOL-Library.Sublist" "HOL-Library.Char_ord" "HOL-Library.List_Lexorder"
begin

section \<open>Exceptions and the environment\<close>

text \<open>
  The Python exceptions that the handlers of the program tell apart. All of them are
  subclasses of \<^verbatim>\<open>Exception\<close>, so an \<^verbatim>\<open>except Exception\<close> clause catches each one.
  A function that may raise returns \<open>py_exc + 'a\<close>, with \<open>Inl\<close> for the exception.
\<close>

datatype py_exc =
    ValueError
  | RuntimeError
  | FileNotFoundError
  | IndexError
  | OSError
  | OtherException

subsection \<open>Paths (pathlib, POSIX flavour)\<close>

text \<open>
  A path is the list of its parts, as pathlib keeps it: for an anchored path the first
  part is the root (\<^verbatim>\<open>/\<close>, or \<^verbatim>\<open>//\<close> for exactly two leading slashes), the other parts
  hold no separator, and pathlib drops empty parts and \<^verbatim>\<open>.\<close> when it parses a string.
\<close>

type_synonym path = "string list"

text \<open>\<^verbatim>\<open>str.split(sep)\<close> for a one-character separator.\<close>

fun split_sep :: "char \<Rightarrow> string \<Rightarrow> string list" where
  "split_sep sep [] = [[]]"
| "split_sep sep (c # cs) =
     (if c = sep then [] # split_sep sep cs
      else (case split_sep sep cs of
              [] \<Rightarrow> [[c]]
            | w # ws \<Rightarrow> (c # w) # ws))"

text \<open>\<^verbatim>\<open>sep.join(parts)\<close>.\<close>

fun join_sep :: "string \<Rightarrow> string list \<Rightarrow> string" where
  "join_sep sep [] = []"
| "join_sep sep [w] = w"
| "join_sep sep (w # ws) = w @ sep @ join_sep sep ws"

text \<open>The POSIX flavour's \<^verbatim>\<open>splitroot\<close>: the root of a string and the rest of it.\<close>

definition splitroot :: "string \<Rightarrow> string \<times> string" where
  "splitroot part =
     (if part \<noteq> [] \<and> hd part = CHR ''/'' then
        (let stripped = dropWhile (\<lambda>c. c = CHR ''/'') part in
         if length part - length stripped = 2 then (''//'', stripped) else (''/'', stripped))
      else ([], part))"

text \<open>\<^verbatim>\<open>Path(s)\<close> for one string argument (\<^verbatim>\<open>parse_parts\<close>).\<close>

definition Path :: "string \<Rightarrow> path" where
  "Path s =
     (if s = [] then []
      else (case splitroot s of
              (root, rel) \<Rightarrow>
                (if root \<noteq> [] then [root] else []) @
                filter (\<lambda>x. x \<noteq> [] \<and> x \<noteq> ''.'') (split_sep (CHR ''/'') rel)))"

definition is_anchored :: "path \<Rightarrow> bool" where
  "is_anchored p = (case p of [] \<Rightarrow> False | r # _ \<Rightarrow> r = ''/'' \<or> r = ''//'')"

text \<open>The operator \<^verbatim>\<open>p / s\<close> (\<^verbatim>\<open>join_parsed_parts\<close>): an anchored right operand replaces the left one.\<close>

definition joinpath :: "path \<Rightarrow> string \<Rightarrow> path" where
  "joinpath p s = (let q = Path s in if is_anchored q then q else p @ q)"

text \<open>\<^verbatim>\<open>str(p)\<close>.\<close>

definition str_path :: "path \<Rightarrow> string" where
  "str_path p =
     (if p = [] then ''.''
      else if is_anchored p then hd p @ join_sep ''/'' (tl p)
      else join_sep ''/'' p)"

text \<open>\<^verbatim>\<open>p.name\<close>, \<^verbatim>\<open>p.parent\<close>, \<^verbatim>\<open>p.suffix\<close> and \<^verbatim>\<open>p.with_suffix(suffix)\<close>.\<close>

definition path_name :: "path \<Rightarrow> string" where
  "path_name p = (if p = [] \<or> (length p = 1 \<and> is_anchored p) then [] else last p)"

definition parent :: "path \<Rightarrow> path" where
  "parent p = (if length p = 1 \<and> is_anchored p then p else butlast p)"

text \<open>\<^verbatim>\<open>s.rfind(c)\<close>: the last index of \<open>c\<close>, or \<open>-1\<close>.\<close>

fun rfind :: "char \<Rightarrow> string \<Rightarrow> int" where
  "rfind c [] = -1"
| "rfind c (x # xs) =
     (let r = rfind c xs in
      if r \<noteq> -1 then r + 1 else if x = c then 0 else -1)"

definition path_suffix :: "path \<Rightarrow> string" where
  "path_suffix p =
     (let name = path_name p; i = rfind (CHR ''.'') name in
      if 0 < i \<and> i < int (length name) - 1 then drop (nat i) name else [])"

definition with_suffix :: "path \<Rightarrow> string \<Rightarrow> py_exc + path" where
  "with_suffix p suff =
     (if CHR ''/'' \<in> set suff then Inl ValueError
      else if (suff \<noteq> [] \<and> hd suff \<noteq> CHR ''.'') \<or> suff = ''.'' then Inl ValueError
      else (let name = path_name p in
            if name = [] then Inl ValueError
            else (let old_suffix = path_suffix p;
                      name' = (if old_suffix = [] then name @ suff
                               else take (length name - length old_suffix) name @ suff)
                  in Inr (butlast p @ [name']))))"

text \<open>
  \<^verbatim>\<open>p.relative_to(other)\<close>: \<^verbatim>\<open>ValueError\<close> unless the parts of \<open>other\<close> are the first
  parts of \<open>p\<close>; the comparison is part by part.
\<close>

definition relative_to :: "path \<Rightarrow> path \<Rightarrow> py_exc + path" where
  "relative_to p other =
     (let n = length other in
      if (if n = 0 then is_anchored p else take n p \<noteq> other) then Inl ValueError
      else Inr (drop n p))"

subsection \<open>The world outside the program\<close>

text \<open>
  What the program asks of the file system, the TTS model, the Unicode tables and the
  clock is a parameter of the model: each field answers as the operating system or the
  library would at the moment of the call. A call that can raise answers with the
  exception.
  \<^item> \<open>fs_exists\<close>, \<open>fs_is_dir\<close>: \<^verbatim>\<open>Path.exists()\<close>, \<^verbatim>\<open>Path.is_dir()\<close>;
  \<^item> \<open>fs_resolve\<close>: \<^verbatim>\<open>Path.resolve()\<close> (absolute, symbolic links and \<^verbatim>\<open>..\<close> followed);
  \<^item> \<open>fs_glob_wav\<close>: \<^verbatim>\<open>list(d.glob("*.wav"))\<close>, in the order the system lists the files;
  \<^item> \<open>fs_mkdir\<close>: \<^verbatim>\<open>Path.mkdir(parents=..., exist_ok=True)\<close>, \<open>None\<close> when it succeeds;
  \<^item> \<open>fs_stat\<close>: \<^verbatim>\<open>Path.stat()\<close>, \<open>None\<close> when it succeeds;
  \<^item> \<open>os_path_exists\<close>: \<^verbatim>\<open>os.path.exists\<close> of a string (it differs from \<^verbatim>\<open>Path(s).exists()\<close>
    on the empty string and on a trailing slash);
  \<^item> \<open>glob_glob\<close>: \<^verbatim>\<open>glob.glob(pattern)\<close>, in the order the system lists the files;
  \<^item> \<open>ffplay\<close>: \<^verbatim>\<open>subprocess.run(["ffplay", ...])\<close>, the return code or the exception;
  \<^item> \<open>tts_init\<close>: \<^verbatim>\<open>VoiceCloner()\<close>, \<open>None\<close> when the model loads;
  \<^item> \<open>tts_to_file\<close>: the model's \<^verbatim>\<open>tts_to_file(text, file_path, speaker_wav, language)\<close>;
  \<^item> \<open>isspace\<close>, \<open>lower\<close>: \<^verbatim>\<open>str.isspace\<close> of one character and \<^verbatim>\<open>str.lower\<close>;
  \<^item> \<open>now\<close>: \<^verbatim>\<open>datetime.now().strftime("%Y%m%d_%H%M%S")\<close>.
  A character of a \<open>string\<close> stands for one code point of a Python \<^verbatim>\<open>str\<close>.
\<close>

record world =
  fs_exists :: "path \<Rightarrow> bool"
  fs_is_dir :: "path \<Rightarrow> bool"
  fs_resolve :: "path \<Rightarrow> py_exc + path"
  fs_glob_wav :: "path \<Rightarrow> path list"
  fs_mkdir :: "bool \<Rightarrow> path \<Rightarrow> py_exc option"
  fs_stat :: "path \<Rightarrow> py_exc option"
  os_path_exists :: "string \<Rightarrow> bool"
  glob_glob :: "string \<Rightarrow> string list"
  tts_init :: "py_exc option"
  tts_to_file :: "string \<Rightarrow> string \<Rightarrow> string \<Rightarrow> string \<Rightarrow> py_exc option"
  ffplay :: "string \<Rightarrow> py_exc + int"
  isspace :: "char \<Rightarrow> bool"
  lower :: "string \<Rightarrow> string"
  now :: string

section \<open>voice\_cloner.py\<close>

subsection \<open>validate\_path\<close>

text \<open>
  The handler of \<^verbatim>\<open>validate_path\<close>: \<^verbatim>\<open>ValueError\<close> and \<^verbatim>\<open>RuntimeError\<close> are turned into
  \<^verbatim>\<open>ValueError\<close>; any other exception leaves the function as it is.
\<close>

definition validate_handler :: "py_exc \<Rightarrow> py_exc" where
  "validate_handler e = (if e = ValueError \<or> e = RuntimeError then ValueError else e)"

definition validate_path :: "world \<Rightarrow> string \<Rightarrow> string \<Rightarrow> py_exc + path" where
  "validate_path W p allowed_parent =
     (case fs_resolve W (Path p) of
        Inl e \<Rightarrow> Inl (validate_handler e)
      | Inr resolved \<Rightarrow>
          (case fs_resolve W (Path allowed_parent) of
             Inl e \<Rightarrow> Inl (validate_handler e)
           | Inr allowed \<Rightarrow>
               (case relative_to resolved allowed of
                  Inl e \<Rightarrow> Inl (validate_handler e)
                | Inr _ \<Rightarrow> Inr resolved)))"

subsection \<open>What the program does to the world\<close>

text \<open>
  The lines the program prints are kept by what they say, not letter by letter; the
  banners and progress lines that are printed on every run are left out. An event is a
  printed line, a prompt of the interactive session (with the counter and the language
  it shows), or a call that changes the world.
\<close>

datatype message =
    AudioSaved string
  | ErrorGeneratingAudio py_exc
  | Goodbye
  | HelpText
  | LanguageChanged string
  | UnsupportedLanguage string
  | SavedFile string
  | ErrorMsg py_exc
  | VoiceProfileNotFound string
  | UsingVoice path
  | ErrorInitCloner py_exc
  | TextRequired
  | TextTooLong nat
  | OutputOutside
  | Success
  | ErrorGeneratingSpeech py_exc
  | Usage
  | TextEmpty
  | VoiceFileNotFound path
  | CouldNotAutoPlay
  | InstallFfplayTip
  | PleaseEnterText
  | PleaseSelectVoice
  | VoiceFileMissing string
  | InvalidPath
  | GeneratedSuccessfully

datatype event =
    Print message
  | Prompt nat string
  | Mkdir bool path
  | TtsToFile string string string string
  | Play string
  | ListVoices

subsection \<open>Strings\<close>

text \<open>\<^verbatim>\<open>s.strip()\<close> and \<^verbatim>\<open>s.split()\<close>, on the whitespace of \<open>isspace\<close>.\<close>

definition strip :: "world \<Rightarrow> string \<Rightarrow> string" where
  "strip W s = rev (dropWhile (isspace W) (rev (dropWhile (isspace W) s)))"

fun split_ws_from :: "(char \<Rightarrow> bool) \<Rightarrow> string \<Rightarrow> string \<Rightarrow> string list" where
  "split_ws_from sp cur [] = (if cur = [] then [] else [cur])"
| "split_ws_from sp cur (c # cs) =
     (if sp c then (if cur = [] then split_ws_from sp [] cs else cur # split_ws_from sp [] cs)
      else split_ws_from sp (cur @ [c]) cs)"

definition split_ws :: "world \<Rightarrow> string \<Rightarrow> string list" where
  "split_ws W s = split_ws_from (isspace W) [] s"

text \<open>\<^verbatim>\<open>str(n)\<close> for a natural number, and the format \<^verbatim>\<open>{n:03d}\<close>.\<close>

fun str_nat :: "nat \<Rightarrow> string" where
  "str_nat n =
     (if n < 10 then [''0123456789'' ! n]
      else str_nat (n div 10) @ [''0123456789'' ! (n mod 10)])"

definition format_03d :: "nat \<Rightarrow> string" where
  "format_03d n = (let s = str_nat n in replicate (3 - length s) (CHR ''0'') @ s)"

subsection \<open>VoiceCloner\<close>

text \<open>
  \<^verbatim>\<open>clone_voice\<close> returns the output path or raises, and the events it caused. The
  reference audio is asked for with \<^verbatim>\<open>os.path.exists\<close>; the output directory is made
  with \<^verbatim>\<open>parents=True\<close>; an exception of the model is printed and raised again.
\<close>

definition clone_voice ::
  "world \<Rightarrow> string \<Rightarrow> string \<Rightarrow> string \<Rightarrow> string \<Rightarrow> (py_exc + string) \<times> event list" where
  "clone_voice W txt reference_audio output_path language =
     (if \<not> os_path_exists W reference_audio then (Inl FileNotFoundError, [])
      else if txt = [] \<or> strip W txt = [] then (Inl ValueError, [])
      else (let dir = parent (Path output_path) in
            case fs_mkdir W True dir of
              Some e \<Rightarrow> (Inl e, [Mkdir True dir])
            | None \<Rightarrow>
                (case tts_to_file W txt output_path reference_audio language of
                   None \<Rightarrow>
                     (Inr output_path,
                      [Mkdir True dir, TtsToFile txt output_path reference_audio language,
                       Print (AudioSaved output_path)])
                 | Some e \<Rightarrow>
                     (Inl e,
                      [Mkdir True dir, TtsToFile txt output_path reference_audio language,
                       Print (ErrorGeneratingAudio e)]))))"

definition get_supported_languages :: "string list" where
  "get_supported_languages =
     [''en'', ''es'', ''fr'', ''de'', ''it'', ''pt'', ''pl'', ''tr'',
      ''ru'', ''nl'', ''cs'', ''ar'', ''zh-cn'', ''ja'', ''hu'', ''ko'']"

section \<open>cli.py\<close>

subsection \<open>find\_voice\_file\<close>

text \<open>
  A \<^verbatim>\<open>ValueError\<close> of \<^verbatim>\<open>validate_path\<close> is passed over and the search goes on in the
  voices directory; any other exception leaves the function.
\<close>

definition find_voice_file :: "world \<Rightarrow> string \<Rightarrow> py_exc + path option" where
  "find_voice_file W voice_name =
     (let voices_dir = Path ''voices'';
          combined_path = joinpath (joinpath voices_dir voice_name) ''combined.wav'';
          voice_dir = joinpath voices_dir voice_name;
          in_voices =
            (if fs_exists W combined_path then Some combined_path
             else if fs_exists W voice_dir \<and> fs_is_dir W voice_dir then
               (case fs_glob_wav W voice_dir of
                  [] \<Rightarrow> None
                | f # _ \<Rightarrow> Some f)
             else None)
      in if fs_exists W (Path voice_name) \<and> path_suffix (Path voice_name) = ''.wav'' then
           (case validate_path W voice_name ''voices'' of
              Inr validated_path \<Rightarrow> Inr (Some validated_path)
            | Inl e \<Rightarrow> if e = ValueError then Inr in_voices else Inl e)
         else Inr in_voices)"

subsection \<open>interactive\_mode\<close>

text \<open>
  What \<^verbatim>\<open>input()\<close> does at one prompt: it returns a line, or the user interrupts. When
  the lines run out, \<^verbatim>\<open>input()\<close> raises \<^verbatim>\<open>EOFError\<close>, so a session over a finite input ends.
\<close>

datatype input_event = Line string | KeyboardInterrupt

record session =
  counter :: nat
  current_language :: string

datatype step_result = Continue session | Break | Crash py_exc

text \<open>
  One turn of the \<^verbatim>\<open>while True\<close> loop. \<^verbatim>\<open>user_input.split()[1]\<close> raises \<^verbatim>\<open>IndexError\<close>
  when the line has no second word; no handler of the loop catches it.
\<close>

definition interactive_step ::
  "world \<Rightarrow> path \<Rightarrow> session \<Rightarrow> input_event \<Rightarrow> step_result \<times> event list" where
  "interactive_step W voice_file s i =
     (let pr = Prompt (counter s) (current_language s) in
      case i of
        KeyboardInterrupt \<Rightarrow> (Break, [pr, Print Goodbye])
      | Line raw \<Rightarrow>
          (let user_input = strip W raw in
           if user_input = [] then (Continue s, [pr])
           else if lower W user_input \<in> set [''quit'', ''exit'', ''q''] then
             (Break, [pr, Print Goodbye])
           else if lower W user_input = ''help'' then (Continue s, [pr, Print HelpText])
           else if prefix ''lang '' (lower W user_input) then
             (case split_ws W user_input of
                _ # code # _ \<Rightarrow>
                  (let new_lang = lower W code;
                       supported = get_supported_languages
                   in if new_lang \<in> set supported then
                        (Continue (s\<lparr>current_language := new_lang\<rparr>),
                         [pr, Print (LanguageChanged new_lang)])
                      else (Continue s, [pr, Print (UnsupportedLanguage new_lang)]))
              | _ \<Rightarrow> (Crash IndexError, [pr]))
           else
             (let output_file =
                    joinpath (Path ''outputs'')
                      (''interactive_'' @ now W @ ''_'' @ format_03d (counter s) @ ''.wav'')
              in case clone_voice W user_input (str_path voice_file) (str_path output_file)
                        (current_language s) of
                   (Inr _, evs) \<Rightarrow>
                     (Continue (s\<lparr>counter := counter s + 1\<rparr>),
                      pr # evs @ [Print (SavedFile (path_name output_file)),
                                  Play (str_path output_file)])
                 | (Inl e, evs) \<Rightarrow> (Continue s, pr # evs @ [Print (ErrorMsg e)]))))"

text \<open>
  The loop over the lines of the input: the exception that ended it (\<open>None\<close> for a
  normal end), the last state and the events.
\<close>

fun interactive_loop ::
  "world \<Rightarrow> path \<Rightarrow> session \<Rightarrow> input_event list \<Rightarrow> py_exc option \<times> session \<times> event list" where
  "interactive_loop W voice_file s [] =
     (None, s, [Prompt (counter s) (current_language s), Print Goodbye])"
| "interactive_loop W voice_file s (i # rest) =
     (case interactive_step W voice_file s i of
        (Continue s', evs) \<Rightarrow>
          (case interactive_loop W voice_file s' rest of
             (r, final, evs') \<Rightarrow> (r, final, evs @ evs'))
      | (Break, evs) \<Rightarrow> (None, s, evs)
      | (Crash e, evs) \<Rightarrow> (Some e, s, evs))"

definition interactive_mode ::
  "world \<Rightarrow> path \<Rightarrow> input_event list \<Rightarrow> py_exc option \<times> session \<times> event list" where
  "interactive_mode W voice_file inputs =
     (let output_dir = Path ''outputs'';
          start = \<lparr>counter = 1, current_language = ''en''\<rparr>
      in case fs_mkdir W False output_dir of
           Some e \<Rightarrow> (Some e, start, [Mkdir False output_dir])
         | None \<Rightarrow>
             (case interactive_loop W voice_file start inputs of
                (r, final, evs) \<Rightarrow> (r, final, Mkdir False output_dir # evs)))"

subsection \<open>main\<close>

text \<open>
  The parsed command line. \<^verbatim>\<open>list_voices()\<close> only prints; it is kept as one event.
  \<^verbatim>\<open>sys.exit(n)\<close> is the outcome \<open>SysExit n\<close>; an exception that no handler of \<^verbatim>\<open>main\<close>
  catches is \<open>Raised\<close>.
\<close>

record args =
  arg_text :: "string option"
  arg_voice :: string
  arg_output :: "string option"
  arg_language :: string
  arg_interactive :: bool
  arg_list_voices :: bool

datatype outcome = Returned | SysExit nat | Raised py_exc

definition MAX_TEXT_LENGTH :: nat where
  "MAX_TEXT_LENGTH = 10000"

text \<open>
  The last part of \<^verbatim>\<open>main\<close>: the generation, inside its \<^verbatim>\<open>try\<close>. The success lines
  are printed before the size of the file is asked for.
\<close>

definition cli_generate ::
  "world \<Rightarrow> args \<Rightarrow> string \<Rightarrow> path \<Rightarrow> path \<Rightarrow> outcome \<times> event list" where
  "cli_generate W a txt voice_file output_path =
     (case fs_mkdir W True (parent output_path) of
        Some e \<Rightarrow> (Raised e, [Mkdir True (parent output_path)])
      | None \<Rightarrow>
          (case clone_voice W txt (str_path voice_file) (str_path output_path) (arg_language a) of
             (Inl e, evs) \<Rightarrow>
               (SysExit 1, Mkdir True (parent output_path) # evs @ [Print (ErrorGeneratingSpeech e)])
           | (Inr _, evs) \<Rightarrow>
               (case fs_stat W output_path of
                  Some e \<Rightarrow>
                    (SysExit 1,
                     Mkdir True (parent output_path) # evs @
                     [Print Success, Print (ErrorGeneratingSpeech e)])
                | None \<Rightarrow> (Returned, Mkdir True (parent output_path) # evs @ [Print Success]))))"

definition cli_main :: "world \<Rightarrow> args \<Rightarrow> input_event list \<Rightarrow> outcome \<times> event list" where
  "cli_main W a inputs =
     (if arg_list_voices a then (Returned, [ListVoices])
      else
        (case find_voice_file W (arg_voice a) of
           Inl e \<Rightarrow> (Raised e, [])
         | Inr None \<Rightarrow> (SysExit 1, [Print (VoiceProfileNotFound (arg_voice a)), ListVoices])
         | Inr (Some voice_file) \<Rightarrow>
             (case tts_init W of
                Some e \<Rightarrow> (SysExit 1, [Print (UsingVoice voice_file), Print (ErrorInitCloner e)])
              | None \<Rightarrow>
                  if arg_interactive a then
                    (case interactive_mode W voice_file inputs of
                       (None, _, evs) \<Rightarrow> (Returned, Print (UsingVoice voice_file) # evs)
                     | (Some e, _, evs) \<Rightarrow> (Raised e, Print (UsingVoice voice_file) # evs))
                  else
                    (case arg_text a of
                       None \<Rightarrow> (SysExit 1, [Print (UsingVoice voice_file), Print TextRequired])
                     | Some txt \<Rightarrow>
                         if txt = [] then
                           (SysExit 1, [Print (UsingVoice voice_file), Print TextRequired])
                         else if length txt > MAX_TEXT_LENGTH then
                           (SysExit 1,
                            [Print (UsingVoice voice_file), Print (TextTooLong MAX_TEXT_LENGTH)])
                         else
                           (case (if arg_output a = None \<or> arg_output a = Some [] then None
                                  else arg_output a) of
                              Some out \<Rightarrow>
                                (case validate_path W out ''outputs'' of
                                   Inl e \<Rightarrow>
                                     if e = ValueError then
                                       (SysExit 1,
                                        [Print (UsingVoice voice_file), Print OutputOutside])
                                     else (Raised e, [Print (UsingVoice voice_file)])
                                 | Inr output_path \<Rightarrow>
                                     (case cli_generate W a txt voice_file output_path of
                                        (r, evs) \<Rightarrow> (r, Print (UsingVoice voice_file) # evs)))
                            | None \<Rightarrow>
                                (let output_dir = Path ''outputs'' in
                                 case fs_mkdir W False output_dir of
                                   Some e \<Rightarrow>
                                     (Raised e,
                                      [Print (UsingVoice voice_file), Mkdir False output_dir])
                                 | None \<Rightarrow>
                                     (let output_path =
                                            joinpath output_dir (''output_'' @ now W @ ''.wav'')
                                      in case cli_generate W a txt voice_file output_path of
                                           (r, evs) \<Rightarrow>
                                             (r, Print (UsingVoice voice_file) #
                                                 Mkdir False output_dir # evs))))))))"

section \<open>quick\_clone.py\<close>

text \<open>The configuration; \<open>script_dir\<close> is \<^verbatim>\<open>Path(__file__).parent\<close>.\<close>

definition VOICE_DIR :: "path \<Rightarrow> path" where
  "VOICE_DIR script_dir = joinpath (joinpath script_dir ''voices'') ''my_voice''"

definition OUTPUT_DIR :: "path \<Rightarrow> path" where
  "OUTPUT_DIR script_dir = joinpath script_dir ''outputs''"

definition DEFAULT_VOICE :: "path \<Rightarrow> path" where
  "DEFAULT_VOICE script_dir = joinpath (VOICE_DIR script_dir) ''combined.wav''"

text \<open>
  \<^verbatim>\<open>main\<close> of quick\_clone.py on \<^verbatim>\<open>sys.argv\<close>. The language is the default of
  \<^verbatim>\<open>clone_voice\<close>. After the generation the file is measured and played.
\<close>

definition quick_clone_main :: "world \<Rightarrow> path \<Rightarrow> string list \<Rightarrow> outcome \<times> event list" where
  "quick_clone_main W script_dir argv =
     (if length argv < 2 then (SysExit 1, [Print Usage])
      else
        (let txt = join_sep '' '' (tl argv) in
         if strip W txt = [] then (SysExit 1, [Print TextEmpty, Print Usage])
         else if length txt > MAX_TEXT_LENGTH then
           (SysExit 1, [Print (TextTooLong MAX_TEXT_LENGTH)])
         else if \<not> fs_exists W (DEFAULT_VOICE script_dir) then
           (SysExit 1, [Print (VoiceFileNotFound (DEFAULT_VOICE script_dir))])
         else
           (case fs_mkdir W False (OUTPUT_DIR script_dir) of
              Some e \<Rightarrow> (Raised e, [Mkdir False (OUTPUT_DIR script_dir)])
            | None \<Rightarrow>
                (let output_file =
                       joinpath (OUTPUT_DIR script_dir) (''cloned_'' @ now W @ ''.wav'');
                     mk = Mkdir False (OUTPUT_DIR script_dir)
                 in case tts_init W of
                      Some e \<Rightarrow> (SysExit 1, [mk, Print (ErrorInitCloner e)])
                    | None \<Rightarrow>
                        (case clone_voice W txt (str_path (DEFAULT_VOICE script_dir))
                                (str_path output_file) ''en'' of
                           (Inl e, evs) \<Rightarrow>
                             (SysExit 1, mk # evs @ [Print (ErrorGeneratingSpeech e)])
                         | (Inr _, evs) \<Rightarrow>
                             (case fs_stat W output_file of
                                Some e \<Rightarrow> (Raised e, mk # evs @ [Print Success])
                              | None \<Rightarrow>
                                  (case ffplay W (str_path output_file) of
                                     Inr rc \<Rightarrow>
                                       (Returned,
                                        mk # evs @ [Print Success, Play (str_path output_file)] @
                                        (if rc \<noteq> 0 then [Print CouldNotAutoPlay] else []))
                                   | Inl e \<Rightarrow>
                                       if e = FileNotFoundError then
                                         (Returned,
                                          mk # evs @ [Print Success, Play (str_path output_file),
                                                      Print InstallFfplayTip])
                                       else
                                         (Raised e,
                                          mk # evs @
                                          [Print Success, Play (str_path output_file)]))))))))"

section \<open>web\_ui.py\<close>

text \<open>
  \<^verbatim>\<open>generate_speech\<close>: the pair it returns (the audio path or \<^verbatim>\<open>None\<close>, and the status
  line), or the exception it lets through, and the events. The voice file of the
  dropdown may be \<^verbatim>\<open>None\<close>.
\<close>

definition generate_speech ::
  "world \<Rightarrow> string \<Rightarrow> string option \<Rightarrow> string \<Rightarrow> (py_exc + string option \<times> message) \<times> event list" where
  "generate_speech W txt voice_file language =
     (if txt = [] \<or> strip W txt = [] then (Inr (None, PleaseEnterText), [])
      else if length txt > MAX_TEXT_LENGTH then (Inr (None, TextTooLong MAX_TEXT_LENGTH), [])
      else
        (case (if voice_file = Some [] then None else voice_file) of
           None \<Rightarrow> (Inr (None, PleaseSelectVoice), [])
         | Some vf \<Rightarrow>
             (case validate_path W vf ''voices'' of
                Inl e \<Rightarrow> if e = ValueError then (Inr (None, InvalidPath), []) else (Inl e, [])
              | Inr voice_path \<Rightarrow>
                  if \<not> fs_exists W voice_path then (Inr (None, VoiceFileMissing vf), [])
                  else
                    (let output_dir = Path ''outputs'' in
                     case fs_mkdir W False output_dir of
                       Some e \<Rightarrow> (Inl e, [Mkdir False output_dir])
                     | None \<Rightarrow>
                         (let output_path = joinpath output_dir (''web_ui_'' @ now W @ ''.wav'')
                          in case clone_voice W txt vf (str_path output_path) language of
                               (Inl e, evs) \<Rightarrow>
                                 (Inr (None, ErrorMsg e), Mkdir False output_dir # evs)
                             | (Inr _, evs) \<Rightarrow>
                                 (case fs_stat W output_path of
                                    Some e \<Rightarrow>
                                      (Inr (None, ErrorMsg e), Mkdir False output_dir # evs)
                                  | None \<Rightarrow>
                                      (Inr (Some (str_path output_path), GeneratedSuccessfully),
                                       Mkdir False output_dir # evs)))))))"

section \<open>scripts/prepare\_audio.py\<close>

subsection \<open>The audio library\<close>

text \<open>
  The script works on pydub's \<^verbatim>\<open>AudioSegment\<close> through the calls below and never looks
  inside a segment, so the library is a parameter of the model and \<open>'a\<close> is its type of
  segments:
  \<^item> \<open>from_file\<close>, \<open>from_wav\<close>: the loaders, which raise on a file they cannot read;
  \<^item> \<open>channels\<close>, \<open>frame_rate\<close>: the attributes of a segment;
  \<^item> \<open>set_channels\<close>, \<open>set_frame_rate\<close>, \<open>normalize\<close>: the conversions;
  \<^item> \<open>detect_nonsilent a min_silence_len silence_thresh\<close>: the list of
    \<^verbatim>\<open>[start, end]\<close> ranges, in milliseconds;
  \<^item> \<open>getitem a start end\<close>: the slice \<^verbatim>\<open>a[start:end]\<close>, in milliseconds, \<open>None\<close> for a
    bound that is left out;
  \<^item> \<open>seg_empty\<close>, \<open>silent d\<close>, \<open>seg_add\<close>: \<^verbatim>\<open>AudioSegment.empty()\<close>,
    \<^verbatim>\<open>AudioSegment.silent(duration=d)\<close> and \<^verbatim>\<open>+\<close>; the last two are called inside the
    \<^verbatim>\<open>try\<close> block of \<^verbatim>\<open>combine_samples\<close>, whose handler catches what they raise (\<^verbatim>\<open>+\<close>
    raises when it cannot bring two segments to one format);
  \<^item> \<open>len\<close>: \<^verbatim>\<open>len(a)\<close>, the duration in milliseconds;
  \<^item> \<open>export\<close>: \<^verbatim>\<open>a.export(path, format="wav")\<close>, \<open>None\<close> when it succeeds.
\<close>

record 'a pydub =
  from_file :: "string \<Rightarrow> py_exc + 'a"
  from_wav :: "string \<Rightarrow> py_exc + 'a"
  channels :: "'a \<Rightarrow> nat"
  frame_rate :: "'a \<Rightarrow> nat"
  set_channels :: "'a \<Rightarrow> nat \<Rightarrow> 'a"
  set_frame_rate :: "'a \<Rightarrow> nat \<Rightarrow> 'a"
  normalize :: "'a \<Rightarrow> 'a"
  detect_nonsilent :: "'a \<Rightarrow> nat \<Rightarrow> int \<Rightarrow> (int \<times> int) list"
  getitem :: "'a \<Rightarrow> int option \<Rightarrow> int option \<Rightarrow> 'a"
  seg_empty :: 'a
  silent :: "nat \<Rightarrow> py_exc + 'a"
  seg_add :: "'a \<Rightarrow> 'a \<Rightarrow> py_exc + 'a"
  len :: "'a \<Rightarrow> nat"
  export :: "'a \<Rightarrow> string \<Rightarrow> py_exc option"

datatype audio_message =
    ErrorLoadingAudio py_exc
  | ConvertingToMono
  | ConvertingSampleRate nat
  | NoNonsilentAudio
  | SavedTo string
  | NoSamplesFound
  | CombiningSamples nat
  | SampleProgress nat nat string
  | FailedToLoad string py_exc
  | CombinedSaved path

datatype 'a audio_event =
    AudioPrint audio_message
  | Export 'a string

subsection \<open>prepare\_audio\<close>

text \<open>
  The result is what the function returns (\<^verbatim>\<open>None\<close> after a failed load, the output path
  otherwise) or the exception that leaves it, with the events. The default output path
  is \<^verbatim>\<open>str(Path(input_path).with_suffix(".processed.wav"))\<close>; after the export the file
  is measured for the summary.
\<close>

definition prepare_audio ::
  "world \<Rightarrow> 'a pydub \<Rightarrow> string \<Rightarrow> string option \<Rightarrow> (py_exc + string option) \<times> 'a audio_event list" where
  "prepare_audio W L input_path output_path =
     (case from_file L input_path of
        Inl e \<Rightarrow> (Inr None, [AudioPrint (ErrorLoadingAudio e)])
      | Inr audio0 \<Rightarrow>
          (let mono = (1 < channels L audio0);
               audio1 = (if mono then set_channels L audio0 1 else audio0);
               ev1 = (if mono then [AudioPrint ConvertingToMono] else []);
               rate = (frame_rate L audio1 \<noteq> 22050);
               audio2 = (if rate then set_frame_rate L audio1 22050 else audio1);
               ev2 = (if rate then [AudioPrint (ConvertingSampleRate (frame_rate L audio1))] else []);
               audio3 = normalize L audio2;
               nonsilent_ranges = detect_nonsilent L audio3 500 (- 40);
               audio4 = (if nonsilent_ranges \<noteq> [] then
                           getitem L audio3 (Some (fst (hd nonsilent_ranges)))
                             (Some (snd (last nonsilent_ranges)))
                         else audio3);
               ev4 = (if nonsilent_ranges \<noteq> [] then [] else [AudioPrint NoNonsilentAudio]);
               evs = ev1 @ ev2 @ ev4
           in case (case output_path of
                      Some out \<Rightarrow> Inr out
                    | None \<Rightarrow>
                        (case with_suffix (Path input_path) ''.processed.wav'' of
                           Inl e \<Rightarrow> Inl e
                         | Inr q \<Rightarrow> Inr (str_path q))) of
                Inl e \<Rightarrow> (Inl e, evs)
              | Inr out \<Rightarrow>
                  (case export L audio4 out of
                     Some e \<Rightarrow> (Inl e, evs @ [Export audio4 out])
                   | None \<Rightarrow>
                       (case fs_stat W (Path out) of
                          Some e \<Rightarrow> (Inl e, evs @ [Export audio4 out, AudioPrint (SavedTo out)])
                        | None \<Rightarrow>
                            (Inr (Some out), evs @ [Export audio4 out, AudioPrint (SavedTo out)])))))"

subsection \<open>combine\_samples\<close>

text \<open>
  The \<^verbatim>\<open>try\<close> block of the loop, for one sample: load it, add it to the combined audio,
  add a pause of 500 ms. Each of the four calls can raise, and the handler catches every
  exception: the result is the combined audio as the block left it (\<^verbatim>\<open>combined\<close> is
  assigned after each \<^verbatim>\<open>+=\<close>) and the exception that was caught, if any.
\<close>

definition try_add_sample :: "'a pydub \<Rightarrow> 'a \<Rightarrow> string \<Rightarrow> 'a \<times> py_exc option" where
  "try_add_sample L combined sample =
     (case from_wav L sample of
        Inl e \<Rightarrow> (combined, Some e)
      | Inr audio \<Rightarrow>
          (case seg_add L combined audio of
             Inl e \<Rightarrow> (combined, Some e)
           | Inr combined1 \<Rightarrow>
               (case silent L 500 of
                  Inl e \<Rightarrow> (combined1, Some e)
                | Inr pause \<Rightarrow>
                    (case seg_add L combined1 pause of
                       Inl e \<Rightarrow> (combined1, Some e)
                     | Inr combined2 \<Rightarrow> (combined2, None)))))"

text \<open>
  The loop over the sorted samples, from the sample numbered \<open>i\<close> of \<open>n\<close>: the progress
  line, the \<^verbatim>\<open>try\<close> block, the warning when an exception was caught, the next sample.
\<close>

fun combine_loop ::
  "'a pydub \<Rightarrow> nat \<Rightarrow> nat \<Rightarrow> 'a \<Rightarrow> string list \<Rightarrow> 'a \<times> 'a audio_event list" where
  "combine_loop L n i combined [] = (combined, [])"
| "combine_loop L n i combined (sample # rest) =
     (case try_add_sample L combined sample of
        (combined', caught) \<Rightarrow>
          (case combine_loop L n (i + 1) combined' rest of
             (c, evs) \<Rightarrow>
               (c, AudioPrint (SampleProgress i n (path_name (Path sample))) #
                   (case caught of
                      None \<Rightarrow> []
                    | Some e \<Rightarrow> [AudioPrint (FailedToLoad sample e)]) @ evs)))"

text \<open>
  \<^verbatim>\<open>combine_samples\<close>: \<^verbatim>\<open>None\<close> when the pattern matches nothing; otherwise the combined
  audio without its last 500 ms is exported to \<^verbatim>\<open>voice_dir / output_name\<close>.
\<close>

definition combine_samples ::
  "world \<Rightarrow> 'a pydub \<Rightarrow> string \<Rightarrow> string \<Rightarrow> (py_exc + path option) \<times> 'a audio_event list" where
  "combine_samples W L voice_dir_arg output_name =
     (let voice_dir = Path voice_dir_arg;
          samples = sort (glob_glob W (str_path (joinpath voice_dir ''sample_*.wav'')))
      in if samples = [] then (Inr None, [AudioPrint NoSamplesFound])
         else
           (case combine_loop L (length samples) 1 (seg_empty L) samples of
              (combined0, evs) \<Rightarrow>
                (let combined = getitem L combined0 None (Some (- 500));
                     output_path = joinpath voice_dir output_name;
                     evs' = AudioPrint (CombiningSamples (length samples)) # evs @
                            [Export combined (str_path output_path)]
                 in case export L combined (str_path output_path) of
                      Some e \<Rightarrow> (Inl e, evs')
                    | None \<Rightarrow>
                        (case fs_stat W output_path of
                           Some e \<Rightarrow> (Inl e, evs' @ [AudioPrint (CombinedSaved output_path)])
                         | None \<Rightarrow>
                             (Inr (Some output_path),
                              evs' @ [AudioPrint (CombinedSaved output_path)])))))"

section \<open>The notions of the specification\<close>

subsection \<open>Sessions and front ends\<close>

text \<open>The languages that the prompts of a session show, in order.\<close>

fun prompt_languages :: "event list \<Rightarrow> string list" where
  "prompt_languages [] = []"
| "prompt_languages (Prompt n l # evs) = l # prompt_languages evs"
| "prompt_languages (ev # evs) = prompt_languages evs"

text \<open>The calls of the TTS model among the events: text, output file, reference audio, language.\<close>

fun tts_calls :: "event list \<Rightarrow> (string \<times> string \<times> string \<times> string) list" where
  "tts_calls [] = []"
| "tts_calls (TtsToFile t f sp l # evs) = (t, f, sp, l) # tts_calls evs"
| "tts_calls (ev # evs) = tts_calls evs"

subsection \<open>The preparation pipeline\<close>

text \<open>
  The steps of the pipeline, one definition each: convert to mono, resample to 22050 Hz,
  (normalize is the library's call), trim the silence at both ends.
\<close>

definition convert_to_mono :: "'a pydub \<Rightarrow> 'a \<Rightarrow> 'a" where
  "convert_to_mono L a = (if 1 < channels L a then set_channels L a 1 else a)"

definition resample_22050 :: "'a pydub \<Rightarrow> 'a \<Rightarrow> 'a" where
  "resample_22050 L a = (if frame_rate L a \<noteq> 22050 then set_frame_rate L a 22050 else a)"

definition trim_silence :: "'a pydub \<Rightarrow> 'a \<Rightarrow> 'a" where
  "trim_silence L a =
     (case detect_nonsilent L a 500 (- 40) of
        [] \<Rightarrow> a
      | r # rs \<Rightarrow> getitem L a (Some (fst r)) (Some (snd (last (r # rs)))))"

definition pipeline :: "'a pydub \<Rightarrow> 'a \<Rightarrow> 'a" where
  "pipeline L a = trim_silence L (normalize L (resample_22050 L (convert_to_mono L a)))"

text \<open>The segments that a list of events exports, with their paths, and the lines it prints.\<close>

fun exports :: "'a audio_event list \<Rightarrow> ('a \<times> string) list" where
  "exports [] = []"
| "exports (Export a out # evs) = (a, out) # exports evs"
| "exports (AudioPrint m # evs) = exports evs"


text \<open>
  What the script relies on for the format of its output: \<^verbatim>\<open>set_channels(1)\<close> gives one
  channel, \<^verbatim>\<open>set_frame_rate(r)\<close> gives the rate \<open>r\<close> and keeps the channels, normalizing
  and slicing keep both, and a loaded segment has at least one channel.
\<close>

definition pydub_keeps_format :: "'a pydub \<Rightarrow> bool" where
  "pydub_keeps_format L \<longleftrightarrow>
     (\<forall>a. channels L (set_channels L a 1) = 1) \<and>
     (\<forall>a r. frame_rate L (set_frame_rate L a r) = r \<and>
            channels L (set_frame_rate L a r) = channels L a) \<and>
     (\<forall>a. channels L (normalize L a) = channels L a \<and>
          frame_rate L (normalize L a) = frame_rate L a) \<and>
     (\<forall>a s e. channels L (getitem L a s e) = channels L a \<and>
              frame_rate L (getitem L a s e) = frame_rate L a) \<and>
     (\<forall>f a. from_file L f = Inr a \<longrightarrow> 1 \<le> channels L a)"

subsection \<open>The combined voice file\<close>

text \<open>The samples of a list that load, in the order of the list, and those that do not.\<close>

fun loaded_samples :: "'a pydub \<Rightarrow> string list \<Rightarrow> 'a list" where
  "loaded_samples L [] = []"
| "loaded_samples L (sample # rest) =
     (case from_wav L sample of
        Inr audio \<Rightarrow> audio # loaded_samples L rest
      | Inl e \<Rightarrow> loaded_samples L rest)"

fun failed_samples :: "'a pydub \<Rightarrow> string list \<Rightarrow> (string \<times> py_exc) list" where
  "failed_samples L [] = []"
| "failed_samples L (sample # rest) =
     (case from_wav L sample of
        Inr audio \<Rightarrow> failed_samples L rest
      | Inl e \<Rightarrow> (sample, e) # failed_samples L rest)"

text \<open>
  A list of segments added in order to a segment \<open>c\<close>, each followed by a pause of
  500 ms, when every one of these additions succeeds.
\<close>

fun join_loaded :: "'a pydub \<Rightarrow> 'a \<Rightarrow> 'a list \<Rightarrow> 'a option" where
  "join_loaded L c [] = Some c"
| "join_loaded L c (a # as) =
     (case seg_add L c a of
        Inl e \<Rightarrow> None
      | Inr c1 \<Rightarrow>
          (case silent L 500 of
             Inl e \<Rightarrow> None
           | Inr pause \<Rightarrow>
               (case seg_add L c1 pause of
                  Inl e \<Rightarrow> None
                | Inr c2 \<Rightarrow> join_loaded L c2 as)))"

subsection \<open>Names for the proofs\<close>

text \<open>
  The lines that \<^verbatim>\<open>prepare_audio\<close> prints on the way, the output path it chooses and its
  last part (export, measure, return), each under a name; and the failed loads and the
  progress lines among the events of \<^verbatim>\<open>combine_samples\<close>.
\<close>

definition conversion_lines :: "'a pydub \<Rightarrow> 'a \<Rightarrow> 'a audio_event list" where
  "conversion_lines L a =
     (if 1 < channels L a then [AudioPrint ConvertingToMono] else []) @
     (if frame_rate L (convert_to_mono L a) \<noteq> 22050
      then [AudioPrint (ConvertingSampleRate (frame_rate L (convert_to_mono L a)))] else []) @
     (if detect_nonsilent L (normalize L (resample_22050 L (convert_to_mono L a))) 500 (- 40) \<noteq> []
      then [] else [AudioPrint NoNonsilentAudio])"

definition finish_prepare ::
  "world \<Rightarrow> 'a pydub \<Rightarrow> 'a \<Rightarrow> 'a audio_event list \<Rightarrow> py_exc + string
     \<Rightarrow> (py_exc + string option) \<times> 'a audio_event list" where
  "finish_prepare W L x evs target =
     (case target of
        Inl e \<Rightarrow> (Inl e, evs)
      | Inr out \<Rightarrow>
          (case export L x out of
             Some e \<Rightarrow> (Inl e, evs @ [Export x out])
           | None \<Rightarrow>
               (case fs_stat W (Path out) of
                  Some e \<Rightarrow> (Inl e, evs @ [Export x out, AudioPrint (SavedTo out)])
                | None \<Rightarrow> (Inr (Some out), evs @ [Export x out, AudioPrint (SavedTo out)]))))"

definition output_target :: "string \<Rightarrow> string option \<Rightarrow> py_exc + string" where
  "output_target input_path output_path =
     (case output_path of
        Some out \<Rightarrow> Inr out
      | None \<Rightarrow>
          (case with_suffix (Path input_path) ''.processed.wav'' of
             Inl e \<Rightarrow> Inl e
           | Inr q \<Rightarrow> Inr (str_path q)))"

fun failed_loads :: "'a audio_event list \<Rightarrow> (string \<times> py_exc) list" where
  "failed_loads [] = []"
| "failed_loads (AudioPrint (FailedToLoad s e) # evs) = (s, e) # failed_loads evs"
| "failed_loads (ev # evs) = failed_loads evs"

fun progress_lines :: "'a audio_event list \<Rightarrow> (nat \<times> nat \<times> string) list" where
  "progress_lines [] = []"
| "progress_lines (AudioPrint (SampleProgress i n s) # evs) = (i, n, s) # progress_lines evs"
| "progress_lines (ev # evs) = progress_lines evs"

text \<open>The warning of the loop of \<^verbatim>\<open>combine_samples\<close> for what the \<^verbatim>\<open>try\<close> block caught.\<close>

definition caught_lines :: "string \<Rightarrow> py_exc option \<Rightarrow> 'a audio_event list" where
  "caught_lines sample caught =
     (case caught of None \<Rightarrow> [] | Some e \<Rightarrow> [AudioPrint (FailedToLoad sample e)])"

section \<open>A small world and a small audio library\<close>

text \<open>
  A concrete world, on which the functions above can be run: a file system without
  symbolic links whose working directory is \<^verbatim>\<open>/srv/app\<close>, a TTS model that always
  succeeds, and ASCII for the whitespace and the lower case.
\<close>

definition demo_absolute :: "path \<Rightarrow> path" where
  "demo_absolute p =
     foldl (\<lambda>acc x. if x = ''..'' then (if length acc \<le> 1 then acc else butlast acc) else acc @ [x])
       [] (if is_anchored p then p else [''/'', ''srv'', ''app''] @ p)"

definition demo_dirs :: "path list" where
  "demo_dirs =
     [[''/''], [''/'', ''srv''], [''/'', ''srv'', ''app''],
      [''/'', ''srv'', ''app'', ''voices''],
      [''/'', ''srv'', ''app'', ''voices'', ''my_voice''],
      [''/'', ''srv'', ''app'', ''voices'', ''guest''],
      [''/'', ''srv'', ''app'', ''voices_evil''],
      [''/'', ''srv'', ''app'', ''outputs'']]"

definition demo_files :: "path list" where
  "demo_files =
     [[''/'', ''srv'', ''app'', ''voices'', ''my_voice'', ''combined.wav''],
      [''/'', ''srv'', ''app'', ''voices'', ''my_voice'', ''sample_001.wav''],
      [''/'', ''srv'', ''app'', ''voices'', ''my_voice'', ''sample_002.wav''],
      [''/'', ''srv'', ''app'', ''voices'', ''my_voice'', ''sample_003.wav''],
      [''/'', ''srv'', ''app'', ''voices'', ''guest'', ''hello.wav''],
      [''/'', ''srv'', ''app'', ''voices_evil'', ''x.wav'']]"

definition ascii_lower :: "char \<Rightarrow> char" where
  "ascii_lower c =
     (case map_of (zip ''ABCDEFGHIJKLMNOPQRSTUVWXYZ'' ''abcdefghijklmnopqrstuvwxyz'') c of
        Some d \<Rightarrow> d
      | None \<Rightarrow> c)"

definition demo_world :: world where
  "demo_world =
     \<lparr>fs_exists = (\<lambda>p. demo_absolute p \<in> set (demo_dirs @ demo_files)),
      fs_is_dir = (\<lambda>p. demo_absolute p \<in> set demo_dirs),
      fs_resolve = (\<lambda>p. Inr (demo_absolute p)),
      fs_glob_wav = (\<lambda>p. if demo_absolute p = [''/'', ''srv'', ''app'', ''voices'', ''guest'']
                         then [[''voices'', ''guest'', ''hello.wav'']] else []),
      fs_mkdir = (\<lambda>parents p. None),
      fs_stat = (\<lambda>p. None),
      os_path_exists = (\<lambda>s. s \<noteq> [] \<and> demo_absolute (Path s) \<in> set (demo_dirs @ demo_files)),
      glob_glob = (\<lambda>pat. if pat = ''voices/my_voice/sample_*.wav''
                          then [''voices/my_voice/sample_003.wav'', ''voices/my_voice/sample_001.wav'',
                                ''voices/my_voice/sample_002.wav'']
                          else []),
      tts_init = None,
      tts_to_file = (\<lambda>txt file_path speaker_wav language. None),
      ffplay = (\<lambda>f. Inr 0),
      isspace = (\<lambda>c. c \<in> set [CHR '' '', CHR 0x09, CHR 0x0A, CHR 0x0B, CHR 0x0C, CHR 0x0D]),
      lower = map ascii_lower,
      now = ''20240101_120000''\<rparr>"

text \<open>
  A concrete audio library, at the granularity of one value per millisecond: a segment
  is its number of channels, its frame rate and its list of milliseconds. The slice
  follows pydub's \<^verbatim>\<open>__getitem__\<close>: both bounds are cut at the length, a negative bound
  counts from the end, and the data are sliced as Python slices a sequence. A
  millisecond is silent when its value is 0, normalizing doubles every value, and a sum
  of two segments keeps the format of the left one.
\<close>

record ms_audio =
  ms_channels :: nat
  ms_frame_rate :: nat
  ms_data :: "int list"

definition py_index :: "int \<Rightarrow> nat \<Rightarrow> nat" where
  "py_index i n = (if i < 0 then nat (max 0 (int n + i)) else min (nat i) n)"

definition py_slice :: "'b list \<Rightarrow> int \<Rightarrow> int \<Rightarrow> 'b list" where
  "py_slice xs i j = drop (py_index i (length xs)) (take (py_index j (length xs)) xs)"

definition ms_getitem :: "ms_audio \<Rightarrow> int option \<Rightarrow> int option \<Rightarrow> ms_audio" where
  "ms_getitem a s e =
     (let n = int (length (ms_data a));
          start = min (case s of None \<Rightarrow> 0 | Some v \<Rightarrow> v) n;
          stop = min (case e of None \<Rightarrow> n | Some v \<Rightarrow> v) n;
          position = (\<lambda>v. if v < 0 then n - \<bar>v\<bar> else v)
      in a\<lparr>ms_data := py_slice (ms_data a) (position start) (position stop)\<rparr>)"

definition ms_detect_nonsilent :: "ms_audio \<Rightarrow> (int \<times> int) list" where
  "ms_detect_nonsilent a =
     (let d = ms_data a;
          lead = length (takeWhile (\<lambda>x. x = 0) d);
          trail = length (takeWhile (\<lambda>x. x = 0) (rev d))
      in if lead = length d then [] else [(int lead, int (length d - trail))])"

definition stereo_clip :: ms_audio where
  "stereo_clip = \<lparr>ms_channels = 2, ms_frame_rate = 44100, ms_data = [0, 0, 3, 5, 0, - 2, 0]\<rparr>"

definition quiet_clip :: ms_audio where
  "quiet_clip = \<lparr>ms_channels = 1, ms_frame_rate = 22050, ms_data = [0, 0, 0]\<rparr>"

definition clip_one :: ms_audio where
  "clip_one = \<lparr>ms_channels = 1, ms_frame_rate = 22050, ms_data = [1, 2, 3]\<rparr>"

definition clip_three :: ms_audio where
  "clip_three = \<lparr>ms_channels = 1, ms_frame_rate = 22050, ms_data = [7, 8]\<rparr>"

text \<open>The files that load; \<^verbatim>\<open>sample_002.wav\<close> exists and does not.\<close>

definition demo_load :: "string \<Rightarrow> py_exc + ms_audio" where
  "demo_load f =
     (if f = ''stereo.mp3'' then Inr stereo_clip
      else if f = ''quiet.wav'' then Inr quiet_clip
      else if f = ''voices/my_voice/sample_001.wav'' then Inr clip_one
      else if f = ''voices/my_voice/sample_003.wav'' then Inr clip_three
      else Inl OtherException)"

definition demo_pydub :: "ms_audio pydub" where
  "demo_pydub =
     \<lparr>from_file = demo_load,
      from_wav = demo_load,
      channels = ms_channels,
      frame_rate = ms_frame_rate,
      set_channels = (\<lambda>a n. a\<lparr>ms_channels := n\<rparr>),
      set_frame_rate = (\<lambda>a r. a\<lparr>ms_frame_rate := r\<rparr>),
      normalize = (\<lambda>a. a\<lparr>ms_data := map (\<lambda>x. 2 * x) (ms_data a)\<rparr>),
      detect_nonsilent = (\<lambda>a min_silence_len silence_thresh. ms_detect_nonsilent a),
      getitem = ms_getitem,
      seg_empty = \<lparr>ms_channels = 1, ms_frame_rate = 22050, ms_data = []\<rparr>,
      silent = (\<lambda>d. Inr \<lparr>ms_channels = 1, ms_frame_rate = 22050, ms_data = replicate d 0\<rparr>),
      seg_add = (\<lambda>a b. Inr (a\<lparr>ms_data := ms_data a @ ms_data b\<rparr>)),
      len = (\<lambda>a. length (ms_data a)),
      export = (\<lambda>a out. None)\<rparr>"

text \<open>A text of 10001 characters, a command line for the single-generation mode, and a world
  in which no file exists.\<close>

definition long_text :: string where
  "long_text = replicate 10001 (CHR ''a'')"

definition demo_args :: "string \<Rightarrow> args" where
  "demo_args t =
     \<lparr>arg_text = Some t, arg_voice = ''my_voice'', arg_output = None, arg_language = ''en'',
      arg_interactive = False, arg_list_voices = False\<rparr>"

definition empty_world :: world where
  "empty_world = demo_world\<lparr>fs_exists := (\<lambda>p. False)\<rparr>"

section \<open>pydub, frame by frame\<close>

text \<open>
  A second audio library, which follows pydub's \<^verbatim>\<open>AudioSegment\<close> frame by frame, for the
  statements on \<^verbatim>\<open>combine_samples\<close> that depend on how pydub counts milliseconds and
  joins segments. A segment is its number of channels, its frame rate and its frames,
  one value for each frame (the sample width is left out).
\<close>

record pcm =
  pcm_channels :: nat
  pcm_rate :: nat
  pcm_frames :: "int list"

text \<open>
  Python's \<^verbatim>\<open>round(p / q)\<close> for natural numbers: a half goes to the even neighbour. The
  length \<^verbatim>\<open>len(a)\<close> is \<^verbatim>\<open>round(1000 * (frame_count / frame_rate))\<close>.
\<close>

definition py_round_div :: "nat \<Rightarrow> nat \<Rightarrow> nat" where
  "py_round_div p q =
     (let d = p div q; r = p mod q
      in if 2 * r < q then d else if q < 2 * r then d + 1 else if even d then d else d + 1)"

definition pcm_len :: "pcm \<Rightarrow> nat" where
  "pcm_len a = py_round_div (1000 * length (pcm_frames a)) (pcm_rate a)"

text \<open>
  \<^verbatim>\<open>_parse_position\<close>: a negative bound counts from \<^verbatim>\<open>len(a)\<close>, and the frame of a
  millisecond is \<^verbatim>\<open>int(ms * (frame_rate / 1000.0))\<close>, which cuts towards zero.
\<close>

definition pcm_position :: "pcm \<Rightarrow> int \<Rightarrow> int" where
  "pcm_position a v =
     (let ms = (if v < 0 then int (pcm_len a) - \<bar>v\<bar> else v)
      in if ms < 0 then - ((- ms * int (pcm_rate a)) div 1000)
         else (ms * int (pcm_rate a)) div 1000)"

text \<open>
  \<^verbatim>\<open>__getitem__\<close> for a slice: both bounds are cut at \<^verbatim>\<open>len(a)\<close> and turned into frames,
  the frames are sliced as Python slices a sequence, and the frames that are missing
  from the expected number are filled with silence (copies of the first frame of the
  slice, muted; none when the slice is empty). pydub raises when more than 2 ms of
  frames are missing, which needs a negative start beyond the length; the script
  slices from the start or from a detected range, where at most the half millisecond
  of a rounded length is missing.
\<close>

definition pcm_getitem :: "pcm \<Rightarrow> int option \<Rightarrow> int option \<Rightarrow> pcm" where
  "pcm_getitem a s e =
     (let n = int (pcm_len a);
          start = min (case s of None \<Rightarrow> 0 | Some v \<Rightarrow> v) n;
          stop = min (case e of None \<Rightarrow> n | Some v \<Rightarrow> v) n;
          i = pcm_position a start;
          j = pcm_position a stop;
          data = py_slice (pcm_frames a) i j;
          missing = (j - i) - int (length data)
      in a\<lparr>pcm_frames :=
             data @ (if 0 < missing \<and> data \<noteq> [] then replicate (nat missing) 0 else [])\<rparr>)"

text \<open>
  \<^verbatim>\<open>set_channels\<close> as \<^verbatim>\<open>+\<close> calls it: the segment itself for its own number of channels,
  a conversion from mono or to mono, and \<^verbatim>\<open>ValueError\<close> for any other pair.
  \<^verbatim>\<open>set_frame_rate\<close>: the segment itself for its own rate, the new rate alone for a segment
  without frames; for a segment with frames pydub resamples with \<^verbatim>\<open>audioop.ratecv\<close>, for
  which the nearest earlier frame stands here (no statement below resamples a segment
  with frames).
\<close>

definition pcm_to_channels :: "pcm \<Rightarrow> nat \<Rightarrow> py_exc + pcm" where
  "pcm_to_channels a ch =
     (if ch = pcm_channels a then Inr a
      else if ch = 1 \<or> pcm_channels a = 1 then Inr (a\<lparr>pcm_channels := ch\<rparr>)
      else Inl ValueError)"

definition pcm_to_rate :: "pcm \<Rightarrow> nat \<Rightarrow> pcm" where
  "pcm_to_rate a r =
     (if r = pcm_rate a then a
      else if pcm_frames a = [] then a\<lparr>pcm_rate := r\<rparr>
      else a\<lparr>pcm_rate := r,
             pcm_frames := map (\<lambda>k. pcm_frames a ! ((k * pcm_rate a) div r))
                             [0 ..< (length (pcm_frames a) * r) div pcm_rate a]\<rparr>)"

text \<open>
  \<^verbatim>\<open>a + b\<close>: \<^verbatim>\<open>_sync\<close> brings both segments to the larger number of channels, then to the
  larger rate, and the frames of the second are appended to those of the first.
  \<^verbatim>\<open>AudioSegment.silent(duration=d)\<close> is mono at 11025 Hz with \<^verbatim>\<open>int(11025 * (d / 1000.0))\<close>
  frames, and \<^verbatim>\<open>AudioSegment.empty()\<close> is mono at 1 Hz without frames.
\<close>

definition pcm_add :: "pcm \<Rightarrow> pcm \<Rightarrow> py_exc + pcm" where
  "pcm_add a b =
     (let ch = max (pcm_channels a) (pcm_channels b);
          r = max (pcm_rate a) (pcm_rate b)
      in case pcm_to_channels a ch of
           Inl e \<Rightarrow> Inl e
         | Inr a1 \<Rightarrow>
             (case pcm_to_channels b ch of
                Inl e \<Rightarrow> Inl e
              | Inr b1 \<Rightarrow>
                  Inr ((pcm_to_rate a1 r)
                         \<lparr>pcm_frames := pcm_frames (pcm_to_rate a1 r) @ pcm_frames (pcm_to_rate b1 r)\<rparr>)))"

definition pcm_silent :: "nat \<Rightarrow> pcm" where
  "pcm_silent d =
     \<lparr>pcm_channels = 1, pcm_rate = 11025, pcm_frames = replicate ((11025 * d) div 1000) 0\<rparr>"

definition pcm_empty :: pcm where
  "pcm_empty = \<lparr>pcm_channels = 1, pcm_rate = 1, pcm_frames = []\<rparr>"

text \<open>
  Five recordings at 11025 Hz: two seconds and one second of mono, 11031 frames of mono
  (1001 ms when rounded), one second of stereo and one second on six channels.
\<close>

definition take_one :: pcm where
  "take_one = \<lparr>pcm_channels = 1, pcm_rate = 11025, pcm_frames = replicate 22050 3\<rparr>"

definition take_three :: pcm where
  "take_three = \<lparr>pcm_channels = 1, pcm_rate = 11025, pcm_frames = replicate 11025 5\<rparr>"

definition solo_take :: pcm where
  "solo_take = \<lparr>pcm_channels = 1, pcm_rate = 11025, pcm_frames = replicate 11031 1\<rparr>"

definition stereo_take :: pcm where
  "stereo_take = \<lparr>pcm_channels = 2, pcm_rate = 11025, pcm_frames = replicate 11025 2\<rparr>"

definition surround_take :: pcm where
  "surround_take = \<lparr>pcm_channels = 6, pcm_rate = 11025, pcm_frames = replicate 11025 4\<rparr>"

text \<open>
  The files that load: two of the three samples of \<^verbatim>\<open>voices/my_voice\<close>, the sample of
  \<^verbatim>\<open>voices/solo\<close> and the two samples of \<^verbatim>\<open>voices/band\<close>.
\<close>

definition pcm_load :: "string \<Rightarrow> py_exc + pcm" where
  "pcm_load f =
     (if f = ''voices/my_voice/sample_001.wav'' then Inr take_one
      else if f = ''voices/my_voice/sample_003.wav'' then Inr take_three
      else if f = ''voices/solo/sample_001.wav'' then Inr solo_take
      else if f = ''voices/band/sample_001.wav'' then Inr stereo_take
      else if f = ''voices/band/sample_002.wav'' then Inr surround_take
      else Inl OtherException)"

text \<open>
  The library. \<^verbatim>\<open>prepare_audio\<close> calls \<^verbatim>\<open>set_channels\<close> with 1 only, which never raises;
  normalizing is left as the identity, and a segment is taken as silent when all its
  frames are 0.
\<close>

definition frame_pydub :: "pcm pydub" where
  "frame_pydub =
     \<lparr>from_file = pcm_load,
      from_wav = pcm_load,
      channels = pcm_channels,
      frame_rate = pcm_rate,
      set_channels = (\<lambda>a n. a\<lparr>pcm_channels := n\<rparr>),
      set_frame_rate = pcm_to_rate,
      normalize = (\<lambda>a. a),
      detect_nonsilent = (\<lambda>a min_silence_len silence_thresh.
                           if list_all (\<lambda>x. x = 0) (pcm_frames a) then [] else [(0, int (pcm_len a))]),
      getitem = pcm_getitem,
      seg_empty = pcm_empty,
      silent = (\<lambda>d. Inr (pcm_silent d)),
      seg_add = pcm_add,
      len = pcm_len,
      export = (\<lambda>a out. None)\<rparr>"

text \<open>
  The small world with two more voice directories, as \<^verbatim>\<open>glob.glob\<close> lists them:
  \<^verbatim>\<open>voices/solo\<close> with one sample and \<^verbatim>\<open>voices/band\<close> with two.
\<close>

definition studio_world :: world where
  "studio_world =
     demo_world
       \<lparr>glob_glob :=
          (\<lambda>pat. if pat = ''voices/solo/sample_*.wav'' then [''voices/solo/sample_001.wav'']
                 else if pat = ''voices/band/sample_*.wav''
                 then [''voices/band/sample_002.wav'', ''voices/band/sample_001.wav'']
                 else glob_glob demo_world pat)\<rparr>"

text \<open>
  The combined audio of each directory as the loop leaves it, before the last 500 ms
  are cut: every appended sample is followed by the 5512 frames of a pause.
\<close>

definition my_voice_joined :: pcm where
  "my_voice_joined =
     \<lparr>pcm_channels = 1, pcm_rate = 11025,
      pcm_frames = replicate 22050 3 @ replicate 5512 0 @ replicate 11025 5 @ replicate 5512 0\<rparr>"

definition solo_joined :: pcm where
  "solo_joined =
     \<lparr>pcm_channels = 1, pcm_rate = 11025, pcm_frames = replicate 11031 1 @ replicate 5512 0\<rparr>"


section \<open>Path validation\<close>

lemma take_is_prefix: "take (length a) r = a \<longleftrightarrow> prefix a r"
  by (metis append_eq_conv_conj prefix_def)

text \<open>
  Claim C3. When both paths resolve, \<^verbatim>\<open>validate_path(path, allowed_parent)\<close> returns the
  resolved path if the parts of the resolved allowed directory are the first parts of
  the resolved path (the path is that directory or lies inside it), and raises
  \<^verbatim>\<open>ValueError\<close> for every other path. The test compares whole parts, not characters.
\<close>

theorem validate_path_containment:
  assumes "fs_resolve W (Path p) = Inr resolved"
    and "fs_resolve W (Path allowed_parent) = Inr allowed"
    and "is_anchored allowed"
  shows "validate_path W p allowed_parent =
           (if prefix allowed resolved then Inr resolved else Inl ValueError)"
proof -
  from assms(3) have ne: "allowed \<noteq> []" by (auto simp: is_anchored_def)
  show ?thesis
    using assms(1,2) ne
    by (simp add: validate_path_def relative_to_def validate_handler_def Let_def take_is_prefix)
qed

lemma demo_path_simps:
  "Path ''voices'' = [''voices'']"
  "Path ''voices/my_voice/combined.wav'' = [''voices'', ''my_voice'', ''combined.wav'']"
  "Path ''voices_evil/x.wav'' = [''voices_evil'', ''x.wav'']"
  "Path ''voices/../../etc/passwd'' = [''voices'', ''..'', ''..'', ''etc'', ''passwd'']"
  by (simp_all add: Path_def splitroot_def)

text \<open>
  On the small world: a file inside \<^verbatim>\<open>voices\<close> and the directory itself are accepted;
  \<^verbatim>\<open>voices_evil/x.wav\<close> is refused although \<^verbatim>\<open>/srv/app/voices\<close> is a prefix of its
  resolved string; a path that climbs out with \<^verbatim>\<open>..\<close> is refused.
\<close>

theorem validate_path_containment_witness:
  "validate_path demo_world ''voices/my_voice/combined.wav'' ''voices''
     = Inr [''/'', ''srv'', ''app'', ''voices'', ''my_voice'', ''combined.wav'']
   \<and> validate_path demo_world ''voices'' ''voices'' = Inr [''/'', ''srv'', ''app'', ''voices'']
   \<and> validate_path demo_world ''voices_evil/x.wav'' ''voices'' = Inl ValueError
   \<and> prefix ''/srv/app/voices'' (str_path [''/'', ''srv'', ''app'', ''voices_evil'', ''x.wav''])
   \<and> validate_path demo_world ''voices/../../etc/passwd'' ''voices'' = Inl ValueError"
proof -
  have allowed: "fs_resolve demo_world (Path ''voices'') = Inr [''/'', ''srv'', ''app'', ''voices'']"
    by (simp add: demo_world_def demo_absolute_def demo_path_simps is_anchored_def)
  have anchored: "is_anchored [''/'', ''srv'', ''app'', ''voices'']"
    by (simp add: is_anchored_def)
  have r1: "fs_resolve demo_world (Path ''voices/my_voice/combined.wav'')
              = Inr [''/'', ''srv'', ''app'', ''voices'', ''my_voice'', ''combined.wav'']"
    by (simp add: demo_world_def demo_absolute_def demo_path_simps is_anchored_def)
  have r3: "fs_resolve demo_world (Path ''voices_evil/x.wav'')
              = Inr [''/'', ''srv'', ''app'', ''voices_evil'', ''x.wav'']"
    by (simp add: demo_world_def demo_absolute_def demo_path_simps is_anchored_def)
  have r4: "fs_resolve demo_world (Path ''voices/../../etc/passwd'')
              = Inr [''/'', ''srv'', ''etc'', ''passwd'']"
    by (simp add: demo_world_def demo_absolute_def demo_path_simps is_anchored_def)
  show ?thesis
    using validate_path_containment [OF r1 allowed anchored]
      validate_path_containment [OF allowed allowed anchored]
      validate_path_containment [OF r3 allowed anchored]
      validate_path_containment [OF r4 allowed anchored]
    by (simp add: str_path_def is_anchored_def)
qed

section \<open>The checks of clone\_voice\<close>

lemma strip_empty_iff: "strip W s = [] \<longleftrightarrow> (\<forall>c \<in> set s. isspace W c)"
proof
  assume "strip W s = []"
  then have all: "\<forall>x \<in> set (dropWhile (isspace W) s). isspace W x"
    by (simp add: strip_def)
  have "dropWhile (isspace W) s = []"
  proof (rule ccontr)
    assume ne: "dropWhile (isspace W) s \<noteq> []"
    then have "\<not> isspace W (hd (dropWhile (isspace W) s))" by (rule hd_dropWhile)
    moreover from ne have "hd (dropWhile (isspace W) s) \<in> set (dropWhile (isspace W) s)" by simp
    ultimately show False using all by blast
  qed
  then show "\<forall>c \<in> set s. isspace W c" by simp
next
  assume "\<forall>c \<in> set s. isspace W c"
  then show "strip W s = []" by (auto simp: strip_def dest: set_dropWhileD)
qed

text \<open>
  Claim C8, as amended. \<^verbatim>\<open>clone_voice\<close> raises \<^verbatim>\<open>FileNotFoundError\<close> when the reference
  audio does not exist; when it exists and the text is empty or all whitespace, it
  raises \<^verbatim>\<open>ValueError\<close>; in both cases no directory has been made and the model has not
  been called (the list of events is empty). When the directory can be made and the
  model succeeds, the function returns the output path it was given.
\<close>

theorem clone_voice_checks_first:
  "(\<not> os_path_exists W reference_audio \<longrightarrow>
      clone_voice W txt reference_audio output_path language = (Inl FileNotFoundError, []))
   \<and> (os_path_exists W reference_audio \<and> (\<forall>c \<in> set txt. isspace W c) \<longrightarrow>
      clone_voice W txt reference_audio output_path language = (Inl ValueError, []))
   \<and> (os_path_exists W reference_audio \<and> \<not> (\<forall>c \<in> set txt. isspace W c)
       \<and> fs_mkdir W True (parent (Path output_path)) = None
       \<and> tts_to_file W txt output_path reference_audio language = None \<longrightarrow>
      fst (clone_voice W txt reference_audio output_path language) = Inr output_path)"
  by (auto simp: clone_voice_def strip_empty_iff Let_def)

theorem clone_voice_checks_first_witness:
  "clone_voice demo_world ''Hello'' ''voices/none.wav'' ''outputs/a.wav'' ''en''
     = (Inl FileNotFoundError, [])
   \<and> clone_voice demo_world ''  '' ''voices/my_voice/combined.wav'' ''outputs/a.wav'' ''en''
     = (Inl ValueError, [])
   \<and> clone_voice demo_world [] ''voices/my_voice/combined.wav'' ''outputs/a.wav'' ''en''
     = (Inl ValueError, [])
   \<and> fst (clone_voice demo_world ''Hello'' ''voices/my_voice/combined.wav'' ''outputs/a.wav'' ''en'')
     = Inr ''outputs/a.wav''"
proof -
  have e1: "\<not> os_path_exists demo_world ''voices/none.wav''"
    by (simp add: demo_world_def demo_absolute_def Path_def splitroot_def is_anchored_def
        demo_dirs_def demo_files_def)
  have e2: "os_path_exists demo_world ''voices/my_voice/combined.wav''"
    by (simp add: demo_world_def demo_absolute_def Path_def splitroot_def is_anchored_def
        demo_dirs_def demo_files_def)
  have s1: "\<forall>c \<in> set ''  ''. isspace demo_world c" by (simp add: demo_world_def)
  have s2: "\<forall>c \<in> set []. isspace demo_world c" by simp
  have s3: "\<not> (\<forall>c \<in> set ''Hello''. isspace demo_world c)" by (simp add: demo_world_def)
  have m: "fs_mkdir demo_world True (parent (Path ''outputs/a.wav'')) = None"
    by (simp add: demo_world_def)
  have t: "tts_to_file demo_world ''Hello'' ''outputs/a.wav'' ''voices/my_voice/combined.wav'' ''en'' = None"
    by (simp add: demo_world_def)
  show ?thesis
    using clone_voice_checks_first [of demo_world "''voices/none.wav''" "''Hello''" "''outputs/a.wav''" "''en''"]
      clone_voice_checks_first [of demo_world "''voices/my_voice/combined.wav''" "''  ''" "''outputs/a.wav''" "''en''"]
      clone_voice_checks_first [of demo_world "''voices/my_voice/combined.wav''" "[]" "''outputs/a.wav''" "''en''"]
      clone_voice_checks_first [of demo_world "''voices/my_voice/combined.wav''" "''Hello''" "''outputs/a.wav''" "''en''"]
      e1 e2 s1 s2 s3 m t
    by blast
qed

text \<open>
  The claim as it was stated, with \<^verbatim>\<open>ValueError\<close> for every empty or blank text, fails
  when the reference audio is missing as well: the reference is checked first, and the
  exception is \<^verbatim>\<open>FileNotFoundError\<close>.
\<close>

theorem clone_voice_blank_text_counterexample:
  "strip demo_world ''  '' = []
   \<and> clone_voice demo_world ''  '' ''voices/none.wav'' ''outputs/a.wav'' ''en''
     = (Inl FileNotFoundError, [])
   \<and> clone_voice demo_world [] ''voices/none.wav'' ''outputs/a.wav'' ''en''
     = (Inl FileNotFoundError, [])
   \<and> FileNotFoundError \<noteq> ValueError"
proof -
  have e: "\<not> os_path_exists demo_world ''voices/none.wav''"
    by (simp add: demo_world_def demo_absolute_def Path_def splitroot_def is_anchored_def
        demo_dirs_def demo_files_def)
  have s: "strip demo_world ''  '' = []"
    by (simp add: strip_def demo_world_def)
  from e s show ?thesis
    by (simp add: clone_voice_def)
qed

section \<open>The language of the interactive session\<close>

lemma prompt_languages_append:
  "prompt_languages (xs @ ys) = prompt_languages xs @ prompt_languages ys"
  by (induction xs rule: prompt_languages.induct) simp_all

lemma clone_voice_no_prompt:
  "prompt_languages (snd (clone_voice W txt ref out lang)) = []"
  by (simp add: clone_voice_def Let_def split: option.splits)

lemma interactive_step_prompt:
  "prompt_languages (snd (interactive_step W vf s i)) = [current_language s]"
proof (cases i)
  case KeyboardInterrupt
  then show ?thesis by (simp add: interactive_step_def)
next
  case (Line raw)
  have cv: "\<And>r evs. clone_voice W a b c d = (r, evs) \<Longrightarrow> prompt_languages evs = []" for a b c d
    using clone_voice_no_prompt [of W a b c d] by simp
  show ?thesis
    unfolding Line interactive_step_def Let_def
    by (auto simp: prompt_languages_append split: list.splits prod.splits sum.splits dest: cv)
qed

lemma interactive_step_language:
  assumes "interactive_step W vf s i = (Continue s', evs)"
  shows "current_language s' = current_language s \<or>
         (\<exists>raw w code rest. i = Line raw \<and> strip W raw \<noteq> []
            \<and> prefix ''lang '' (lower W (strip W raw))
            \<and> split_ws W (strip W raw) = w # code # rest
            \<and> current_language s' = lower W code
            \<and> lower W code \<in> set get_supported_languages)"
proof (cases i)
  case KeyboardInterrupt
  with assms show ?thesis by (simp add: interactive_step_def)
next
  case (Line raw)
  with assms show ?thesis
    unfolding interactive_step_def Let_def
    by (auto split: if_splits list.splits prod.splits sum.splits)
qed

lemma interactive_step_supported:
  assumes "interactive_step W vf s i = (Continue s', evs)"
    and "current_language s \<in> set get_supported_languages"
  shows "current_language s' \<in> set get_supported_languages"
  using interactive_step_language [OF assms(1)] assms(2) by auto

lemma interactive_loop_supported:
  assumes "current_language s \<in> set get_supported_languages"
    and "interactive_loop W vf s inputs = (r, final, evs)"
  shows "current_language final \<in> set get_supported_languages
         \<and> set (prompt_languages evs) \<subseteq> set get_supported_languages
         \<and> (\<exists>rest. prompt_languages evs = current_language s # rest)"
  using assms
proof (induction inputs arbitrary: s r final evs)
  case Nil
  then show ?case by auto
next
  case (Cons i inputs)
  obtain res evs1 where step: "interactive_step W vf s i = (res, evs1)"
    by (cases "interactive_step W vf s i")
  have p1: "prompt_languages evs1 = [current_language s]"
    using interactive_step_prompt [of W vf s i] step by simp
  show ?case
  proof (cases res)
    case (Continue s')
    obtain r2 f2 evs2 where rec: "interactive_loop W vf s' inputs = (r2, f2, evs2)"
      by (cases "interactive_loop W vf s' inputs")
    have s': "current_language s' \<in> set get_supported_languages"
      using interactive_step_supported step Continue Cons.prems(1) by blast
    from Cons.IH [OF s' rec] Cons.prems step Continue rec p1
    show ?thesis by (auto simp: prompt_languages_append)
  next
    case Break
    with Cons.prems step p1 show ?thesis by auto
  next
    case (Crash e)
    with Cons.prems step p1 show ?thesis by auto
  qed
qed

lemma en_supported: "''en'' \<in> set get_supported_languages"
  by (simp add: get_supported_languages_def)

lemma lang_command_step:
  assumes "strip W raw \<noteq> []"
    and "prefix ''lang '' (lower W (strip W raw))"
    and "split_ws W (strip W raw) = w # code # rest"
  shows "interactive_step W vf s (Line raw) =
           (if lower W code \<in> set get_supported_languages
            then (Continue (s\<lparr>current_language := lower W code\<rparr>),
                  [Prompt (counter s) (current_language s), Print (LanguageChanged (lower W code))])
            else (Continue s,
                  [Prompt (counter s) (current_language s), Print (UnsupportedLanguage (lower W code))]))"
proof -
  from assms(2) have "lower W (strip W raw) \<noteq> ''help''"
    and "lower W (strip W raw) \<notin> set [''quit'', ''exit'', ''q'']"
    by (auto simp: prefix_def)
  with assms show ?thesis
    by (simp add: interactive_step_def Let_def)
qed

text \<open>
  Claim C10, as amended. In the interactive session the current language is always one
  of \<^verbatim>\<open>get_supported_languages()\<close>: the last state and every prompt show a supported
  language, and the first prompt shows \<^verbatim>\<open>en\<close>. A line that starts with \<^verbatim>\<open>lang\<close> and a
  space (in lower case) and has a second word \<open>code\<close> sets the language to the lower-cased
  \<open>code\<close> when the lower-cased \<open>code\<close> is in the list, and otherwise leaves it as it was
  and prints the error line; and the language changes at no other step.
\<close>

theorem interactive_language_supported:
  "(case interactive_mode W voice_file inputs of
      (r, final, evs) \<Rightarrow>
        current_language final \<in> set get_supported_languages
        \<and> set (prompt_languages evs) \<subseteq> set get_supported_languages
        \<and> (fs_mkdir W False (Path ''outputs'') = None \<longrightarrow>
             (\<exists>rest. prompt_languages evs = ''en'' # rest)))
   \<and> (strip W raw \<noteq> [] \<and> prefix ''lang '' (lower W (strip W raw))
        \<and> split_ws W (strip W raw) = w # code # tail \<longrightarrow>
        interactive_step W voice_file s (Line raw) =
          (if lower W code \<in> set get_supported_languages
           then (Continue (s\<lparr>current_language := lower W code\<rparr>),
                 [Prompt (counter s) (current_language s), Print (LanguageChanged (lower W code))])
           else (Continue s,
                 [Prompt (counter s) (current_language s),
                  Print (UnsupportedLanguage (lower W code))])))
   \<and> (interactive_step W voice_file s i = (Continue s', evs')
        \<and> current_language s' \<noteq> current_language s \<longrightarrow>
        (\<exists>line w' code' tail'. i = Line line
           \<and> prefix ''lang '' (lower W (strip W line))
           \<and> split_ws W (strip W line) = w' # code' # tail'
           \<and> current_language s' = lower W code'
           \<and> lower W code' \<in> set get_supported_languages))"
proof (intro conjI)
  show "case interactive_mode W voice_file inputs of
      (r, final, evs) \<Rightarrow>
        current_language final \<in> set get_supported_languages
        \<and> set (prompt_languages evs) \<subseteq> set get_supported_languages
        \<and> (fs_mkdir W False (Path ''outputs'') = None \<longrightarrow>
             (\<exists>rest. prompt_languages evs = ''en'' # rest))"
  proof (cases "fs_mkdir W False (Path ''outputs'')")
    case (Some e)
    then show ?thesis by (simp add: interactive_mode_def Let_def en_supported)
  next
    case None
    obtain r final evs where
      loop: "interactive_loop W voice_file \<lparr>counter = 1, current_language = ''en''\<rparr> inputs
               = (r, final, evs)"
      by (cases "interactive_loop W voice_file \<lparr>counter = 1, current_language = ''en''\<rparr> inputs")
    have "current_language \<lparr>counter = 1, current_language = ''en''\<rparr> \<in> set get_supported_languages"
      by (simp add: en_supported)
    from interactive_loop_supported [OF this loop] None loop
    show ?thesis by (simp add: interactive_mode_def Let_def)
  qed
next
  show "strip W raw \<noteq> [] \<and> prefix ''lang '' (lower W (strip W raw))
        \<and> split_ws W (strip W raw) = w # code # tail \<longrightarrow>
        interactive_step W voice_file s (Line raw) =
          (if lower W code \<in> set get_supported_languages
           then (Continue (s\<lparr>current_language := lower W code\<rparr>),
                 [Prompt (counter s) (current_language s), Print (LanguageChanged (lower W code))])
           else (Continue s,
                 [Prompt (counter s) (current_language s),
                  Print (UnsupportedLanguage (lower W code))]))"
    using lang_command_step by blast
next
  show "interactive_step W voice_file s i = (Continue s', evs')
        \<and> current_language s' \<noteq> current_language s \<longrightarrow>
        (\<exists>line w' code' tail'. i = Line line
           \<and> prefix ''lang '' (lower W (strip W line))
           \<and> split_ws W (strip W line) = w' # code' # tail'
           \<and> current_language s' = lower W code'
           \<and> lower W code' \<in> set get_supported_languages)"
    using interactive_step_language by blast
qed

lemma demo_strip_lang:
  "strip demo_world ''lang ES'' = ''lang ES''"
  "strip demo_world ''lang xx'' = ''lang xx''"
  by (simp_all add: strip_def demo_world_def)

lemma demo_lower_lang:
  "lower demo_world ''lang ES'' = ''lang es''"
  "lower demo_world ''lang xx'' = ''lang xx''"
  "lower demo_world ''ES'' = ''es''"
  "lower demo_world ''xx'' = ''xx''"
  by (simp_all add: demo_world_def ascii_lower_def)

lemma demo_split_lang:
  "split_ws demo_world ''lang ES'' = [''lang'', ''ES'']"
  "split_ws demo_world ''lang xx'' = [''lang'', ''xx'']"
  by (simp_all add: split_ws_def demo_world_def)

text \<open>
  The claim as it was stated, with the typed code itself in the list, fails on the line
  \<^verbatim>\<open>lang ES\<close>: the language becomes \<^verbatim>\<open>es\<close>, and \<^verbatim>\<open>ES\<close> is not in the list.
\<close>

theorem lang_command_literal_counterexample:
  "fst (interactive_step demo_world [''voices'', ''my_voice'', ''combined.wav'']
          \<lparr>counter = 1, current_language = ''en''\<rparr> (Line ''lang ES''))
     = Continue \<lparr>counter = 1, current_language = ''es''\<rparr>
   \<and> ''ES'' \<notin> set get_supported_languages"
  by (simp add: interactive_step_def Let_def demo_strip_lang demo_lower_lang demo_split_lang
      get_supported_languages_def)

theorem interactive_language_supported_witness:
  "current_language (fst (snd (interactive_mode demo_world [''voices'', ''my_voice'', ''combined.wav'']
       [Line ''lang ES'', Line ''lang xx'', Line ''Hello'']))) \<in> set get_supported_languages
   \<and> interactive_step demo_world [''voices'', ''my_voice'', ''combined.wav'']
        \<lparr>counter = 1, current_language = ''en''\<rparr> (Line ''lang ES'')
      = (Continue \<lparr>counter = 1, current_language = ''es''\<rparr>,
         [Prompt 1 ''en'', Print (LanguageChanged ''es'')])
   \<and> interactive_step demo_world [''voices'', ''my_voice'', ''combined.wav'']
        \<lparr>counter = 1, current_language = ''en''\<rparr> (Line ''lang xx'')
      = (Continue \<lparr>counter = 1, current_language = ''en''\<rparr>,
         [Prompt 1 ''en'', Print (UnsupportedLanguage ''xx'')])"
proof -
  let ?vf = "[''voices'', ''my_voice'', ''combined.wav'']"
  let ?s = "\<lparr>counter = 1, current_language = ''en''\<rparr>"
  have h1: "strip demo_world ''lang ES'' \<noteq> [] \<and> prefix ''lang '' (lower demo_world (strip demo_world ''lang ES''))
            \<and> split_ws demo_world (strip demo_world ''lang ES'') = ''lang'' # ''ES'' # []"
    by (simp add: demo_strip_lang demo_lower_lang demo_split_lang)
  have h2: "strip demo_world ''lang xx'' \<noteq> [] \<and> prefix ''lang '' (lower demo_world (strip demo_world ''lang xx''))
            \<and> split_ws demo_world (strip demo_world ''lang xx'') = ''lang'' # ''xx'' # []"
    by (simp add: demo_strip_lang demo_lower_lang demo_split_lang)
  have yes: "lower demo_world ''ES'' \<in> set get_supported_languages"
    by (simp add: demo_lower_lang get_supported_languages_def)
  have no: "lower demo_world ''xx'' \<notin> set get_supported_languages"
    by (simp add: demo_lower_lang get_supported_languages_def)
  note T1 = interactive_language_supported
      [where W = demo_world and voice_file = ?vf
         and inputs = "[Line ''lang ES'', Line ''lang xx'', Line ''Hello'']"
         and raw = "''lang ES''" and w = "''lang''" and code = "''ES''" and tail = "[]"
         and s = ?s and i = "Line ''lang ES''" and s' = ?s and evs' = "[]"]
  note T2 = interactive_language_supported
      [where W = demo_world and voice_file = ?vf and inputs = "[]"
         and raw = "''lang xx''" and w = "''lang''" and code = "''xx''" and tail = "[]"
         and s = ?s and i = "Line ''lang xx''" and s' = ?s and evs' = "[]"]
  have a: "current_language (fst (snd (interactive_mode demo_world ?vf
             [Line ''lang ES'', Line ''lang xx'', Line ''Hello'']))) \<in> set get_supported_languages"
    using T1 [THEN conjunct1] by (simp split: prod.splits)
  have b: "interactive_step demo_world ?vf ?s (Line ''lang ES'')
             = (Continue \<lparr>counter = 1, current_language = ''es''\<rparr>,
                [Prompt 1 ''en'', Print (LanguageChanged ''es'')])"
    using T1 [THEN conjunct2, THEN conjunct1] h1 yes by (simp add: demo_lower_lang)
  have c: "interactive_step demo_world ?vf ?s (Line ''lang xx'')
             = (Continue \<lparr>counter = 1, current_language = ''en''\<rparr>,
                [Prompt 1 ''en'', Print (UnsupportedLanguage ''xx'')])"
    using T2 [THEN conjunct2, THEN conjunct1] h2 no by (simp add: demo_lower_lang)
  from a b c show ?thesis by simp
qed

section \<open>The text limit\<close>

lemma tts_calls_append: "tts_calls (xs @ ys) = tts_calls xs @ tts_calls ys"
  by (induction xs rule: tts_calls.induct) simp_all

lemma clone_voice_tts_calls:
  "set (tts_calls (snd (clone_voice W txt ref out lang))) \<subseteq> {(txt, out, ref, lang)}"
  by (simp add: clone_voice_def Let_def split: option.splits)

lemma clone_voice_not_too_long:
  "Print (TextTooLong n) \<notin> set (snd (clone_voice W txt ref out lang))"
  by (simp add: clone_voice_def Let_def split: option.splits)

lemma cli_generate_not_too_long:
  "Print (TextTooLong n) \<notin> set (snd (cli_generate W a txt vf out))"
proof -
  obtain r evs where cv: "clone_voice W txt (str_path vf) (str_path out) (arg_language a) = (r, evs)"
    by (cases "clone_voice W txt (str_path vf) (str_path out) (arg_language a)")
  then have "Print (TextTooLong n) \<notin> set evs"
    using clone_voice_not_too_long [of n W "txt" "str_path vf" "str_path out" "arg_language a"] by simp
  with cv show ?thesis
    by (simp add: cli_generate_def split: option.splits sum.splits)
qed

lemma cli_long_text:
  assumes "\<not> arg_list_voices a" "\<not> arg_interactive a" "arg_text a = Some txt"
    and "find_voice_file W (arg_voice a) = Inr v" and "MAX_TEXT_LENGTH < length txt"
  shows "fst (cli_main W a inputs) = SysExit 1 \<and> tts_calls (snd (cli_main W a inputs)) = []"
proof -
  from assms(5) have "txt \<noteq> []" by auto
  with assms show ?thesis
    by (simp add: cli_main_def split: option.splits)
qed

lemma cli_short_text:
  assumes "\<not> arg_interactive a" "arg_text a = Some txt" "length txt \<le> MAX_TEXT_LENGTH"
  shows "Print (TextTooLong n) \<notin> set (snd (cli_main W a inputs))"
proof -
  have g: "\<And>vf out r evs. cli_generate W a txt vf out = (r, evs) \<Longrightarrow> Print (TextTooLong n) \<notin> set evs"
    using cli_generate_not_too_long [of n W a "txt"] by (metis snd_conv)
  from assms show ?thesis
    unfolding cli_main_def Let_def
    by (auto split: option.splits sum.splits prod.splits if_splits dest: g)
qed

lemma quick_long_text:
  assumes "MAX_TEXT_LENGTH < length (join_sep '' '' (tl argv))"
  shows "fst (quick_clone_main W d argv) = SysExit 1
         \<and> tts_calls (snd (quick_clone_main W d argv)) = []"
  using assms by (simp add: quick_clone_main_def Let_def)

lemma quick_short_text:
  assumes "length (join_sep '' '' (tl argv)) \<le> MAX_TEXT_LENGTH"
  shows "Print (TextTooLong n) \<notin> set (snd (quick_clone_main W d argv))"
proof -
  have g: "\<And>a b c e r evs. clone_voice W a b c e = (r, evs) \<Longrightarrow> Print (TextTooLong n) \<notin> set evs"
    using clone_voice_not_too_long [of n W] by (metis snd_conv)
  from assms show ?thesis
    unfolding quick_clone_main_def Let_def
    by (auto split: option.splits sum.splits prod.splits if_splits dest: g)
qed

lemma web_long_text:
  assumes "MAX_TEXT_LENGTH < length txt"
  shows "generate_speech W txt vf lang =
           (Inr (None, if strip W txt = [] then PleaseEnterText else TextTooLong MAX_TEXT_LENGTH), [])"
  using assms by (auto simp: generate_speech_def)

lemma web_short_text:
  assumes "length txt \<le> MAX_TEXT_LENGTH"
  shows "fst (generate_speech W txt vf lang) \<noteq> Inr (r, TextTooLong n)"
  using assms
  by (auto simp: generate_speech_def Let_def split: option.splits sum.splits prod.splits if_splits)

text \<open>
  Claim C9. The three front ends use the same limit of 10000 characters. For a longer
  text, the single-generation mode of the CLI (when the search for the voice file did not
  itself raise) and quick\_clone.py end with \<^verbatim>\<open>sys.exit(1)\<close> and never call the model,
  and \<^verbatim>\<open>generate_speech\<close> returns no audio, an error status and causes no event. For a
  text of at most 10000 characters none of them reports the text as too long.
\<close>

theorem text_limit_enforced:
  "MAX_TEXT_LENGTH = 10000
   \<and> (\<not> arg_list_voices a \<and> \<not> arg_interactive a \<and> arg_text a = Some t
        \<and> find_voice_file W (arg_voice a) = Inr v \<and> 10000 < length t \<longrightarrow>
        fst (cli_main W a inputs) = SysExit 1 \<and> tts_calls (snd (cli_main W a inputs)) = [])
   \<and> (10000 < length (join_sep '' '' (tl argv)) \<longrightarrow>
        fst (quick_clone_main W d argv) = SysExit 1
        \<and> tts_calls (snd (quick_clone_main W d argv)) = [])
   \<and> (10000 < length t \<longrightarrow>
        generate_speech W t vf lang =
          (Inr (None, if strip W t = [] then PleaseEnterText else TextTooLong 10000), []))
   \<and> (\<not> arg_interactive a \<and> arg_text a = Some t \<and> length t \<le> 10000 \<longrightarrow>
        Print (TextTooLong 10000) \<notin> set (snd (cli_main W a inputs)))
   \<and> (length (join_sep '' '' (tl argv)) \<le> 10000 \<longrightarrow>
        Print (TextTooLong 10000) \<notin> set (snd (quick_clone_main W d argv)))
   \<and> (length t \<le> 10000 \<longrightarrow>
        fst (generate_speech W t vf lang) \<noteq> Inr (None, TextTooLong 10000))"
proof -
  have m: "MAX_TEXT_LENGTH = 10000" by (simp add: MAX_TEXT_LENGTH_def)
  show ?thesis
    using cli_long_text [of a t W v inputs] quick_long_text [of argv W d]
      web_long_text [of t W vf lang] cli_short_text [of a t 10000 W inputs]
      quick_short_text [of argv 10000 W d] web_short_text [of t W vf lang None 10000]
    unfolding m by blast
qed

lemma demo_find_my_voice:
  "find_voice_file demo_world ''my_voice'' = Inr (Some [''voices'', ''my_voice'', ''combined.wav''])"
  by (simp add: find_voice_file_def Let_def joinpath_def Path_def splitroot_def is_anchored_def
      path_suffix_def path_name_def demo_world_def demo_absolute_def demo_dirs_def demo_files_def)

theorem text_limit_enforced_witness:
  "fst (cli_main demo_world (demo_args long_text) []) = SysExit 1
   \<and> tts_calls (snd (cli_main demo_world (demo_args long_text) [])) = []
   \<and> fst (quick_clone_main demo_world [''/'', ''srv'', ''app''] [''quick_clone.py'', long_text])
       = SysExit 1
   \<and> generate_speech demo_world long_text (Some ''voices/guest/hello.wav'') ''en''
       = (Inr (None, TextTooLong 10000), [])
   \<and> Print (TextTooLong 10000) \<notin> set (snd (cli_main demo_world (demo_args ''Hello'') []))
   \<and> Print (TextTooLong 10000)
       \<notin> set (snd (quick_clone_main demo_world [''/'', ''srv'', ''app''] [''quick_clone.py'', ''Hello'']))
   \<and> fst (generate_speech demo_world ''Hello'' (Some ''voices/guest/hello.wav'') ''en'')
       \<noteq> Inr (None, TextTooLong 10000)"
proof -
  have len: "10000 < length long_text" by (simp add: long_text_def)
  have ns: "strip demo_world long_text \<noteq> []"
    by (simp add: strip_empty_iff long_text_def demo_world_def)
  have args: "\<not> arg_list_voices (demo_args t)" "\<not> arg_interactive (demo_args t)"
    "arg_text (demo_args t) = Some t" "arg_voice (demo_args t) = ''my_voice''" for t
    by (simp_all add: demo_args_def)
  have short: "length ''Hello'' \<le> 10000" by simp
  note L = text_limit_enforced
      [where a = "demo_args long_text" and t = long_text and W = demo_world
         and v = "Some [''voices'', ''my_voice'', ''combined.wav'']" and inputs = "[]"
         and argv = "[''quick_clone.py'', long_text]" and d = "[''/'', ''srv'', ''app'']"
         and vf = "Some ''voices/guest/hello.wav''" and lang = "''en''"]
  note S = text_limit_enforced
      [where a = "demo_args ''Hello''" and t = "''Hello''" and W = demo_world
         and v = "Some [''voices'', ''my_voice'', ''combined.wav'']" and inputs = "[]"
         and argv = "[''quick_clone.py'', ''Hello'']" and d = "[''/'', ''srv'', ''app'']"
         and vf = "Some ''voices/guest/hello.wav''" and lang = "''en''"]
  from L [THEN conjunct2] len ns args demo_find_my_voice
  have a: "fst (cli_main demo_world (demo_args long_text) []) = SysExit 1
           \<and> tts_calls (snd (cli_main demo_world (demo_args long_text) [])) = []"
    and b: "fst (quick_clone_main demo_world [''/'', ''srv'', ''app''] [''quick_clone.py'', long_text])
              = SysExit 1"
    and c: "generate_speech demo_world long_text (Some ''voices/guest/hello.wav'') ''en''
              = (Inr (None, TextTooLong 10000), [])"
    by simp_all
  from S [THEN conjunct2] short args
  have d: "Print (TextTooLong 10000) \<notin> set (snd (cli_main demo_world (demo_args ''Hello'') []))"
    and e: "Print (TextTooLong 10000)
       \<notin> set (snd (quick_clone_main demo_world [''/'', ''srv'', ''app''] [''quick_clone.py'', ''Hello'']))"
    and f: "fst (generate_speech demo_world ''Hello'' (Some ''voices/guest/hello.wav'') ''en'')
       \<noteq> Inr (None, TextTooLong 10000)"
    by simp_all
  from a b c d e f show ?thesis by simp
qed

section \<open>The default reference audio\<close>

lemma quick_clone_speaker:
  "set (tts_calls (snd (quick_clone_main W d argv)))
     \<subseteq> {(join_sep '' '' (tl argv), str_path (joinpath (OUTPUT_DIR d) (''cloned_'' @ now W @ ''.wav'')),
          str_path (DEFAULT_VOICE d), ''en'')}"
proof -
  have g: "\<And>a b c e r evs. clone_voice W a b c e = (r, evs) \<Longrightarrow> set (tts_calls evs) \<subseteq> {(a, c, b, e)}"
    using clone_voice_tts_calls [of W] by (metis snd_conv)
  show ?thesis
    unfolding quick_clone_main_def Let_def
    by (auto simp: tts_calls_append split: option.splits sum.splits prod.splits if_splits dest!: g)
qed

lemma quick_clone_needs_voice:
  assumes "\<not> fs_exists W (DEFAULT_VOICE d)"
  shows "fst (quick_clone_main W d argv) = SysExit 1 \<and> tts_calls (snd (quick_clone_main W d argv)) = []"
  using assms by (simp add: quick_clone_main_def Let_def)

lemma find_voice_file_combined:
  assumes "\<not> (fs_exists W (Path name) \<and> path_suffix (Path name) = ''.wav'')"
    and "fs_exists W (joinpath (joinpath (Path ''voices'') name) ''combined.wav'')"
  shows "find_voice_file W name = Inr (Some (joinpath (joinpath (Path ''voices'') name) ''combined.wav''))"
  using assms by (auto simp: find_voice_file_def Let_def)

text \<open>
  Claim C7. quick\_clone.py uses \<^verbatim>\<open>voices/my_voice/combined.wav\<close> beside the script as
  the reference of every call of the model, and exits with status 1 without calling the
  model when that file does not exist. \<^verbatim>\<open>find_voice_file\<close>, for a name that is not an
  existing \<^verbatim>\<open>.wav\<close> path, returns \<^verbatim>\<open>voices/<name>/combined.wav\<close> whenever that file
  exists, whatever other files the directory holds.
\<close>

theorem combined_is_default_reference:
  "DEFAULT_VOICE d = joinpath (joinpath (joinpath d ''voices'') ''my_voice'') ''combined.wav''
   \<and> (\<forall>c \<in> set (tts_calls (snd (quick_clone_main W d argv))).
        fst (snd (snd c)) = str_path (DEFAULT_VOICE d))
   \<and> (\<not> fs_exists W (DEFAULT_VOICE d) \<longrightarrow>
        fst (quick_clone_main W d argv) = SysExit 1
        \<and> tts_calls (snd (quick_clone_main W d argv)) = [])
   \<and> (\<not> (fs_exists W (Path name) \<and> path_suffix (Path name) = ''.wav'')
        \<and> fs_exists W (joinpath (joinpath (Path ''voices'') name) ''combined.wav'') \<longrightarrow>
        find_voice_file W name
          = Inr (Some (joinpath (joinpath (Path ''voices'') name) ''combined.wav'')))"
proof (intro conjI)
  show "DEFAULT_VOICE d = joinpath (joinpath (joinpath d ''voices'') ''my_voice'') ''combined.wav''"
    by (simp add: DEFAULT_VOICE_def VOICE_DIR_def)
  show "\<forall>c \<in> set (tts_calls (snd (quick_clone_main W d argv))).
          fst (snd (snd c)) = str_path (DEFAULT_VOICE d)"
    using quick_clone_speaker [of W d argv] by auto
  show "\<not> fs_exists W (DEFAULT_VOICE d) \<longrightarrow>
        fst (quick_clone_main W d argv) = SysExit 1
        \<and> tts_calls (snd (quick_clone_main W d argv)) = []"
    using quick_clone_needs_voice by blast
  show "\<not> (fs_exists W (Path name) \<and> path_suffix (Path name) = ''.wav'')
        \<and> fs_exists W (joinpath (joinpath (Path ''voices'') name) ''combined.wav'') \<longrightarrow>
        find_voice_file W name
          = Inr (Some (joinpath (joinpath (Path ''voices'') name) ''combined.wav''))"
    using find_voice_file_combined by blast
qed

theorem combined_is_default_reference_witness:
  "tts_calls (snd (quick_clone_main demo_world [''/'', ''srv'', ''app''] [''quick_clone.py'', ''Hello'', ''world'']))
     = [(''Hello world'', ''/srv/app/outputs/cloned_20240101_120000.wav'',
         ''/srv/app/voices/my_voice/combined.wav'', ''en'')]
   \<and> fst (quick_clone_main empty_world [''/'', ''srv'', ''app''] [''quick_clone.py'', ''Hello'', ''world''])
       = SysExit 1
   \<and> find_voice_file demo_world ''my_voice'' = Inr (Some [''voices'', ''my_voice'', ''combined.wav''])"
proof -
  let ?d = "[''/'', ''srv'', ''app'']"
  let ?argv = "[''quick_clone.py'', ''Hello'', ''world'']"
  note T = combined_is_default_reference
      [where d = ?d and W = demo_world and argv = ?argv and name = "''my_voice''"]
  note E = combined_is_default_reference
      [where d = ?d and W = empty_world and argv = ?argv and name = "''my_voice''"]
  have dv: "DEFAULT_VOICE ?d = [''/'', ''srv'', ''app'', ''voices'', ''my_voice'', ''combined.wav'']"
    by (simp add: DEFAULT_VOICE_def VOICE_DIR_def joinpath_def Path_def splitroot_def is_anchored_def)
  have calls: "tts_calls (snd (quick_clone_main demo_world ?d ?argv))
     = [(''Hello world'', ''/srv/app/outputs/cloned_20240101_120000.wav'',
         ''/srv/app/voices/my_voice/combined.wav'', ''en'')]"
    by (simp add: quick_clone_main_def Let_def dv OUTPUT_DIR_def joinpath_def Path_def splitroot_def
        is_anchored_def str_path_def clone_voice_def parent_def strip_def
        MAX_TEXT_LENGTH_def demo_world_def demo_absolute_def demo_dirs_def demo_files_def)
  have missing: "\<not> fs_exists empty_world (DEFAULT_VOICE ?d)"
    by (simp add: empty_world_def)
  have n1: "\<not> (fs_exists demo_world (Path ''my_voice'') \<and> path_suffix (Path ''my_voice'') = ''.wav'')"
    by (simp add: Path_def splitroot_def path_suffix_def path_name_def is_anchored_def)
  have n2: "fs_exists demo_world (joinpath (joinpath (Path ''voices'') ''my_voice'') ''combined.wav'')"
    by (simp add: joinpath_def Path_def splitroot_def is_anchored_def demo_world_def
        demo_absolute_def demo_dirs_def demo_files_def)
  have jp: "joinpath (joinpath (Path ''voices'') ''my_voice'') ''combined.wav''
              = [''voices'', ''my_voice'', ''combined.wav'']"
    by (simp add: joinpath_def Path_def splitroot_def is_anchored_def)
  from E [THEN conjunct2, THEN conjunct2, THEN conjunct1] missing
  have b: "fst (quick_clone_main empty_world ?d ?argv) = SysExit 1" by simp
  from T [THEN conjunct2, THEN conjunct2, THEN conjunct2] n1 n2
  have c: "find_voice_file demo_world ''my_voice'' = Inr (Some [''voices'', ''my_voice'', ''combined.wav''])"
    by (simp add: jp)
  from calls b c show ?thesis by simp
qed

section \<open>The preparation of one file\<close>

lemma trim_silence_alt:
  "trim_silence L b =
     (if detect_nonsilent L b 500 (- 40) \<noteq> []
      then getitem L b (Some (fst (hd (detect_nonsilent L b 500 (- 40)))))
             (Some (snd (last (detect_nonsilent L b 500 (- 40)))))
      else b)"
  by (simp add: trim_silence_def split: list.splits)

lemma prepare_audio_loaded:
  assumes "from_file L input_path = Inr a"
  shows "prepare_audio W L input_path output_path =
           finish_prepare W L (pipeline L a) (conversion_lines L a)
             (output_target input_path output_path)"
  unfolding prepare_audio_def finish_prepare_def conversion_lines_def output_target_def
    pipeline_def trim_silence_alt resample_22050_def convert_to_mono_def Let_def assms
  by (simp only: sum.case append_assoc)

lemma exports_append: "exports (xs @ ys) = exports xs @ exports ys"
  by (induction xs rule: exports.induct) simp_all


lemma exports_conversion_lines: "exports (conversion_lines L a) = []"
  by (simp add: conversion_lines_def exports_append)


lemma exports_finish_prepare:
  "exports (snd (finish_prepare W L x evs target)) =
     exports evs @ (case target of Inl e \<Rightarrow> [] | Inr out \<Rightarrow> [(x, out)])"
  by (simp add: finish_prepare_def exports_append split: sum.splits option.splits)


lemma prepare_audio_exports:
  assumes "from_file L input_path = Inr a"
  shows "exports (snd (prepare_audio W L input_path output_path)) =
           (case output_target input_path output_path of
              Inl e \<Rightarrow> []
            | Inr out \<Rightarrow> [(pipeline L a, out)])"
  by (simp add: prepare_audio_loaded [OF assms] exports_finish_prepare exports_conversion_lines)

text \<open>
  Claim C4. For an input that loads, the segment that \<^verbatim>\<open>prepare_audio\<close> exports is the
  loaded segment taken through the steps in this order, each on the result of the one
  before: convert to mono, resample to 22050 Hz, normalize, trim the silence; and it is
  exported once, to the given path or to the default one.
\<close>

theorem prepare_audio_order:
  assumes "from_file L input_path = Inr a"
  shows "exports (snd (prepare_audio W L input_path (Some out))) = [(pipeline L a, out)]
         \<and> (with_suffix (Path input_path) ''.processed.wav'' = Inr q \<longrightarrow>
              exports (snd (prepare_audio W L input_path None)) = [(pipeline L a, str_path q)])
         \<and> pipeline L a
              = trim_silence L (normalize L (resample_22050 L (convert_to_mono L a)))"
  by (simp add: prepare_audio_exports [OF assms] output_target_def pipeline_def)

lemma pipeline_format:
  assumes "pydub_keeps_format L" and "1 \<le> channels L a"
  shows "channels L (pipeline L a) = 1 \<and> frame_rate L (pipeline L a) = 22050"
proof -
  from assms(1) have sc: "\<And>x. channels L (set_channels L x 1) = 1"
    and sr: "\<And>x r. frame_rate L (set_frame_rate L x r) = r"
    and src: "\<And>x r. channels L (set_frame_rate L x r) = channels L x"
    and nc: "\<And>x. channels L (normalize L x) = channels L x"
    and nr: "\<And>x. frame_rate L (normalize L x) = frame_rate L x"
    and gc: "\<And>x s e. channels L (getitem L x s e) = channels L x"
    and gr: "\<And>x s e. frame_rate L (getitem L x s e) = frame_rate L x"
    by (simp_all add: pydub_keeps_format_def)
  have m: "channels L (convert_to_mono L a) = 1"
    using assms(2) sc by (auto simp: convert_to_mono_def)
  have r: "channels L (resample_22050 L x) = channels L x
           \<and> frame_rate L (resample_22050 L x) = 22050" for x
    by (simp add: resample_22050_def sr src)
  have t: "channels L (trim_silence L x) = channels L x
           \<and> frame_rate L (trim_silence L x) = frame_rate L x" for x
    by (simp add: trim_silence_def gc gr split: list.splits)
  show ?thesis
    by (simp add: pipeline_def t nc nr r m)
qed

text \<open>
  Claim C1. With a library that keeps the format as pydub does, every segment that
  \<^verbatim>\<open>prepare_audio\<close> exports for an input that loads has one channel and the frame rate
  22050, whatever the channels and the rate of the input; and with an output path given
  there is exactly one export.
\<close>

theorem prepare_audio_mono_22050:
  assumes "pydub_keeps_format L" and "from_file L input_path = Inr a"
  shows "(\<forall>x \<in> set (exports (snd (prepare_audio W L input_path output_path))).
            channels L (fst x) = 1 \<and> frame_rate L (fst x) = 22050)
         \<and> length (exports (snd (prepare_audio W L input_path (Some out)))) = 1"
proof -
  from assms have "1 \<le> channels L a" by (auto simp: pydub_keeps_format_def)
  with assms(1) have f: "channels L (pipeline L a) = 1 \<and> frame_rate L (pipeline L a) = 22050"
    by (rule pipeline_format)
  then show ?thesis
    by (simp add: prepare_audio_exports [OF assms(2)] output_target_def split: sum.splits)
qed


text \<open>The three theorems on the small library.\<close>

lemma demo_from_file:
  "from_file demo_pydub ''stereo.mp3'' = Inr stereo_clip"
  "from_file demo_pydub ''quiet.wav'' = Inr quiet_clip"
  by (simp_all add: demo_pydub_def demo_load_def)

lemma demo_pydub_simps:
  "channels demo_pydub = ms_channels"
  "frame_rate demo_pydub = ms_frame_rate"
  "set_channels demo_pydub = (\<lambda>a n. a\<lparr>ms_channels := n\<rparr>)"
  "set_frame_rate demo_pydub = (\<lambda>a r. a\<lparr>ms_frame_rate := r\<rparr>)"
  "normalize demo_pydub = (\<lambda>a. a\<lparr>ms_data := map (\<lambda>x. 2 * x) (ms_data a)\<rparr>)"
  "detect_nonsilent demo_pydub = (\<lambda>a min_silence_len silence_thresh. ms_detect_nonsilent a)"
  "getitem demo_pydub = ms_getitem"
  "seg_empty demo_pydub = \<lparr>ms_channels = 1, ms_frame_rate = 22050, ms_data = []\<rparr>"
  "len demo_pydub = (\<lambda>a. length (ms_data a))"
  "from_wav demo_pydub = demo_load"
  by (simp_all add: demo_pydub_def)

lemma demo_keeps_format: "pydub_keeps_format demo_pydub"
  by (auto simp: pydub_keeps_format_def demo_pydub_def ms_getitem_def Let_def demo_load_def
      stereo_clip_def quiet_clip_def clip_one_def clip_three_def split: if_splits)

lemma ms_getitem_inside:
  assumes "0 \<le> s" "s \<le> e" "e \<le> int (length (ms_data a))"
  shows "ms_getitem a (Some s) (Some e) = a\<lparr>ms_data := drop (nat s) (take (nat e) (ms_data a))\<rparr>"
proof -
  have 1: "min s (int (length (ms_data a))) = s" "min e (int (length (ms_data a))) = e"
    using assms by simp_all
  have 2: "py_index s (length (ms_data a)) = nat s" "py_index e (length (ms_data a)) = nat e"
    using assms by (simp_all add: py_index_def)
  from assms have 3: "\<not> s < 0" "\<not> e < 0" by simp_all
  show ?thesis
    unfolding ms_getitem_def Let_def option.case 1 py_slice_def
    by (simp only: 2 3 if_False)
qed

lemma demo_pipeline_stereo:
  "pipeline demo_pydub stereo_clip
     = \<lparr>ms_channels = 1, ms_frame_rate = 22050, ms_data = [6, 10, 0, - 4]\<rparr>"
  by (simp add: pipeline_def trim_silence_def resample_22050_def convert_to_mono_def
      demo_pydub_simps stereo_clip_def ms_detect_nonsilent_def ms_getitem_inside Let_def)

theorem prepare_audio_order_witness:
  "exports (snd (prepare_audio demo_world demo_pydub ''stereo.mp3'' (Some ''out.wav'')))
     = [(\<lparr>ms_channels = 1, ms_frame_rate = 22050, ms_data = [6, 10, 0, - 4]\<rparr>, ''out.wav'')]
   \<and> exports (snd (prepare_audio demo_world demo_pydub ''stereo.mp3'' None))
     = [(\<lparr>ms_channels = 1, ms_frame_rate = 22050, ms_data = [6, 10, 0, - 4]\<rparr>,
         ''stereo.processed.wav'')]"
proof -
  have q: "with_suffix (Path ''stereo.mp3'') ''.processed.wav'' = Inr [''stereo.processed.wav'']"
    by (simp add: with_suffix_def Path_def splitroot_def path_name_def path_suffix_def
        is_anchored_def Let_def)
  have s: "str_path [''stereo.processed.wav''] = ''stereo.processed.wav''"
    by (simp add: str_path_def is_anchored_def)
  from prepare_audio_order [OF demo_from_file(1), of demo_world "''out.wav''" "[''stereo.processed.wav'']"]
    q s demo_pipeline_stereo
  show ?thesis by simp
qed

theorem prepare_audio_mono_22050_witness:
  "map (\<lambda>x. (channels demo_pydub (fst x), frame_rate demo_pydub (fst x)))
     (exports (snd (prepare_audio demo_world demo_pydub ''stereo.mp3'' (Some ''out.wav''))))
     = [(1, 22050)]
   \<and> channels demo_pydub stereo_clip = 2 \<and> frame_rate demo_pydub stereo_clip = 44100"
proof -
  let ?xs = "exports (snd (prepare_audio demo_world demo_pydub ''stereo.mp3'' (Some ''out.wav'')))"
  from prepare_audio_mono_22050 [OF demo_keeps_format demo_from_file(1),
      of demo_world "Some ''out.wav''" "''out.wav''"]
  have all: "\<forall>x \<in> set ?xs. channels demo_pydub (fst x) = 1 \<and> frame_rate demo_pydub (fst x) = 22050"
    and one: "length ?xs = 1"
    by simp_all
  from one obtain e where xs: "?xs = [e]"
    by (cases ?xs) auto
  with all have "channels demo_pydub (fst e) = 1 \<and> frame_rate demo_pydub (fst e) = 22050"
    by simp
  with xs show ?thesis
    by (simp add: demo_pydub_simps stereo_clip_def)
qed


section \<open>The combined voice file\<close>

subsection \<open>The loop over the samples\<close>

lemma failed_loads_append: "failed_loads (xs @ ys) = failed_loads xs @ failed_loads ys"
  by (induction xs rule: failed_loads.induct) simp_all


lemma try_load_fails:
  "from_wav L s = Inl e \<Longrightarrow> try_add_sample L c s = (c, Some e)"
  by (simp add: try_add_sample_def)


lemma try_succeeds:
  "from_wav L s = Inr a \<Longrightarrow> seg_add L c a = Inr c1 \<Longrightarrow> silent L 500 = Inr p \<Longrightarrow>
   seg_add L c1 p = Inr c2 \<Longrightarrow> try_add_sample L c s = (c2, None)"
  by (simp add: try_add_sample_def)

lemma caught_lines_simps:
  "exports (caught_lines s r) = []"
  "progress_lines (caught_lines s r) = []"
  "failed_loads (caught_lines s r :: 'a audio_event list) = (case r of None \<Rightarrow> [] | Some e \<Rightarrow> [(s, e)])"
  by (simp_all add: caught_lines_def split: option.splits)

lemma combine_loop_Cons:
  "combine_loop L n i c (sample # rest) =
     (fst (combine_loop L n (i + 1) (fst (try_add_sample L c sample)) rest),
      AudioPrint (SampleProgress i n (path_name (Path sample))) #
      caught_lines sample (snd (try_add_sample L c sample)) @
      snd (combine_loop L n (i + 1) (fst (try_add_sample L c sample)) rest))"
  by (simp add: caught_lines_def split: prod.splits)

lemma combine_loop_result:
  "fst (combine_loop L n i c samples) = foldl (\<lambda>c s. fst (try_add_sample L c s)) c samples"
proof (induction samples arbitrary: i c)
  case Nil
  show ?case by simp
next
  case (Cons sample rest)
  show ?case by (simp only: combine_loop_Cons Cons.IH fst_conv foldl_Cons)
qed

lemma combine_loop_exports: "exports (snd (combine_loop L n i c samples)) = []"
proof (induction samples arbitrary: i c)
  case Nil
  show ?case by simp
next
  case (Cons sample rest)
  show ?case
    by (simp only: combine_loop_Cons Cons.IH snd_conv exports.simps exports_append
        caught_lines_simps append_Nil)
qed


lemma combine_loop_failed_Cons:
  "failed_loads (snd (combine_loop L n i c (sample # rest))) =
     (case snd (try_add_sample L c sample) of None \<Rightarrow> [] | Some e \<Rightarrow> [(sample, e)]) @
     failed_loads (snd (combine_loop L n (i + 1) (fst (try_add_sample L c sample)) rest))"
  by (simp only: combine_loop_Cons snd_conv failed_loads.simps failed_loads_append
      caught_lines_simps)


lemma join_loaded_loop:
  assumes "join_loaded L c (loaded_samples L samples) = Some joined"
  shows "fst (combine_loop L n i c samples) = joined
         \<and> failed_loads (snd (combine_loop L n i c samples)) = failed_samples L samples"
  using assms
proof (induction samples arbitrary: i c)
  case Nil
  then show ?case by simp
next
  case (Cons sample rest)
  show ?case
  proof (cases "from_wav L sample")
    case (Inl e)
    then have t: "try_add_sample L c sample = (c, Some e)" by (rule try_load_fails)
    from Cons.prems Inl have "join_loaded L c (loaded_samples L rest) = Some joined" by simp
    from Cons.IH [OF this, of "i + 1"] Inl t show ?thesis
      by (simp add: combine_loop_failed_Cons combine_loop_result del: combine_loop.simps)
  next
    case (Inr a)
    with Cons.prems obtain c1 p c2 where
      s1: "seg_add L c a = Inr c1" and s2: "silent L 500 = Inr p"
      and s3: "seg_add L c1 p = Inr c2"
      and rest: "join_loaded L c2 (loaded_samples L rest) = Some joined"
      by (auto split: sum.splits)
    from Inr s1 s2 s3 have t: "try_add_sample L c sample = (c2, None)" by (rule try_succeeds)
    from Cons.IH [OF rest, of "i + 1"] Inr t show ?thesis
      by (simp add: combine_loop_failed_Cons combine_loop_result del: combine_loop.simps)
  qed
qed

lemma combine_samples_nonempty:
  assumes "samples = sort (glob_glob W (str_path (joinpath (Path voice_dir) ''sample_*.wav'')))"
    and "samples \<noteq> []"
  shows "combine_samples W L voice_dir output_name =
           (let combined = getitem L (fst (combine_loop L (length samples) 1 (seg_empty L) samples))
                             None (Some (- 500));
                output_path = joinpath (Path voice_dir) output_name;
                evs' = AudioPrint (CombiningSamples (length samples)) #
                       snd (combine_loop L (length samples) 1 (seg_empty L) samples) @
                       [Export combined (str_path output_path)]
            in case export L combined (str_path output_path) of
                 Some e \<Rightarrow> (Inl e, evs')
               | None \<Rightarrow>
                   (case fs_stat W output_path of
                      Some e \<Rightarrow> (Inl e, evs' @ [AudioPrint (CombinedSaved output_path)])
                    | None \<Rightarrow>
                        (Inr (Some output_path), evs' @ [AudioPrint (CombinedSaved output_path)])))"
proof -
  obtain c evs where loop: "combine_loop L (length samples) 1 (seg_empty L) samples = (c, evs)"
    by (cases "combine_loop L (length samples) 1 (seg_empty L) samples")
  with assms(2) show ?thesis
    by (simp add: combine_samples_def Let_def assms(1) [symmetric])
qed

lemma combine_samples_exports:
  assumes "samples = sort (glob_glob W (str_path (joinpath (Path voice_dir) ''sample_*.wav'')))"
    and "samples \<noteq> []"
  shows "exports (snd (combine_samples W L voice_dir output_name)) =
           [(getitem L (foldl (\<lambda>c s. fst (try_add_sample L c s)) (seg_empty L) samples)
               None (Some (- 500)),
             str_path (joinpath (Path voice_dir) output_name))]"
  by (simp add: combine_samples_nonempty [OF assms] Let_def exports_append combine_loop_exports
      combine_loop_result split: option.splits)




text \<open>
  Claim C2, as amended. When no file matches \<^verbatim>\<open>sample_*.wav\<close>, \<^verbatim>\<open>combine_samples\<close> returns
  \<^verbatim>\<open>None\<close> and exports nothing. When some file matches and every sample that loads can
  be added, what it exports to \<^verbatim>\<open>voice_dir / output_name\<close> is \<^verbatim>\<open>joined[:-500]\<close>, where
  \<open>joined\<close> is the empty segment to which the samples that load have been added in
  sorted order, each followed by a pause of 500 ms. The length of the export in
  milliseconds is what the library makes of this slice; it is not stated as a sum.
\<close>

theorem combine_samples_appends_pauses:
  assumes "samples = sort (glob_glob W (str_path (joinpath (Path voice_dir) ''sample_*.wav'')))"
    and "loaded = loaded_samples L samples"
  shows "(samples = [] \<longrightarrow>
            combine_samples W L voice_dir output_name = (Inr None, [AudioPrint NoSamplesFound]))
         \<and> (samples \<noteq> [] \<and> join_loaded L (seg_empty L) loaded = Some joined \<longrightarrow>
              exports (snd (combine_samples W L voice_dir output_name))
                = [(getitem L joined None (Some (- 500)),
                    str_path (joinpath (Path voice_dir) output_name))])"
proof (intro conjI impI)
  assume "samples = []"
  then show "combine_samples W L voice_dir output_name = (Inr None, [AudioPrint NoSamplesFound])"
    by (simp add: combine_samples_def Let_def assms(1) [symmetric])
next
  assume h: "samples \<noteq> [] \<and> join_loaded L (seg_empty L) loaded = Some joined"
  then have ne: "samples \<noteq> []"
    and j: "join_loaded L (seg_empty L) (loaded_samples L samples) = Some joined"
    by (simp_all add: assms(2))
  from join_loaded_loop [OF j, of "length samples" 1]
  have "foldl (\<lambda>c s. fst (try_add_sample L c s)) (seg_empty L) samples = joined"
    by (simp add: combine_loop_result)
  then show "exports (snd (combine_samples W L voice_dir output_name))
                = [(getitem L joined None (Some (- 500)),
                    str_path (joinpath (Path voice_dir) output_name))]"
    by (simp add: combine_samples_exports [OF assms(1) ne])
qed


subsection \<open>On the frames of pydub\<close>

lemma frame_pydub_simps:
  "from_wav frame_pydub = pcm_load"
  "seg_add frame_pydub = pcm_add"
  "silent frame_pydub = (\<lambda>d. Inr (pcm_silent d))"
  "seg_empty frame_pydub = pcm_empty"
  "getitem frame_pydub = pcm_getitem"
  "len frame_pydub = pcm_len"
  "channels frame_pydub = pcm_channels"
  "export frame_pydub = (\<lambda>a out. None)"
  by (simp_all add: frame_pydub_def)

lemma pcm_silent_500:
  "pcm_silent 500 = \<lparr>pcm_channels = 1, pcm_rate = 11025, pcm_frames = replicate 5512 0\<rparr>"
  by (simp add: pcm_silent_def)

lemma pcm_add_same_format:
  assumes "pcm_channels a = pcm_channels b" and "pcm_rate a = pcm_rate b"
  shows "pcm_add a b = Inr (a\<lparr>pcm_frames := pcm_frames a @ pcm_frames b\<rparr>)"
  using assms by (simp add: pcm_add_def pcm_to_channels_def pcm_to_rate_def Let_def)

lemma pcm_add_to_empty:
  assumes "1 \<le> pcm_rate b" and "1 \<le> pcm_channels b"
  shows "pcm_add pcm_empty b = Inr b"
  using assms
  by (auto simp: pcm_add_def pcm_to_channels_def pcm_to_rate_def pcm_empty_def Let_def max_def)

lemma pcm_add_mono_pause:
  assumes "pcm_rate a = 11025" and "1 \<le> pcm_channels a"
  shows "pcm_add a (pcm_silent 500) = Inr (a\<lparr>pcm_frames := pcm_frames a @ replicate 5512 0\<rparr>)"
  using assms
  by (auto simp: pcm_add_def pcm_to_channels_def pcm_to_rate_def pcm_silent_500 Let_def max_def)


lemma pcm_position_zero: "pcm_position a 0 = 0"
  by (simp add: pcm_position_def)

lemma py_index_zero: "py_index 0 n = 0"
  by (simp add: py_index_def)

lemma py_index_nat: "k \<le> n \<Longrightarrow> py_index (int k) n = k"
  by (simp add: py_index_def)

lemma pcm_position_minus_500:
  assumes "500 \<le> pcm_len a"
  shows "pcm_position a (- 500) = int (((pcm_len a - 500) * pcm_rate a) div 1000)"
proof -
  have e: "int (pcm_len a) - \<bar>- 500\<bar> = int (pcm_len a - 500)"
    using assms by simp
  have n: "\<not> int (pcm_len a - 500) < 0" by simp
  have "pcm_position a (- 500) = (int (pcm_len a - 500) * int (pcm_rate a)) div 1000"
    unfolding pcm_position_def Let_def
    by (simp only: e n if_True if_False) simp
  also have "\<dots> = int (((pcm_len a - 500) * pcm_rate a) div 1000)"
    by (simp only: zdiv_int of_nat_mult of_nat_numeral)
  finally show ?thesis .
qed

lemma pcm_getitem_drop_500:
  assumes "500 \<le> pcm_len a"
    and "((pcm_len a - 500) * pcm_rate a) div 1000 \<le> length (pcm_frames a)"
  shows "pcm_getitem a None (Some (- 500))
           = a\<lparr>pcm_frames := take (((pcm_len a - 500) * pcm_rate a) div 1000) (pcm_frames a)\<rparr>"
proof -
  let ?k = "((pcm_len a - 500) * pcm_rate a) div 1000"
  have m: "min 0 (int (pcm_len a)) = 0" "min (- 500) (int (pcm_len a)) = - 500"
    by simp_all
  have d: "py_slice (pcm_frames a) 0 (int ?k) = take ?k (pcm_frames a)"
    by (simp only: py_slice_def py_index_zero py_index_nat [OF assms(2)] drop_0)
  have "length (take ?k (pcm_frames a)) = ?k"
    using assms(2) by simp
  then have l: "int ?k - 0 - int (length (take ?k (pcm_frames a))) = 0"
    by simp
  have z: "\<not> ((0::int) < 0 \<and> take ?k (pcm_frames a) \<noteq> [])" by simp
  show ?thesis
    unfolding pcm_getitem_def Let_def option.case m pcm_position_zero pcm_position_minus_500 [OF assms(1)] d l
    by (simp only: z if_False append_Nil2)
qed

lemma demo_samples:
  "sort (glob_glob studio_world (str_path (joinpath (Path ''voices/my_voice'') ''sample_*.wav'')))
     = [''voices/my_voice/sample_001.wav'', ''voices/my_voice/sample_002.wav'',
        ''voices/my_voice/sample_003.wav'']"
  by (simp add: str_path_def joinpath_def Path_def splitroot_def is_anchored_def studio_world_def
      demo_world_def less_eq_char_def less_char_def)

lemma solo_samples:
  "sort (glob_glob studio_world (str_path (joinpath (Path ''voices/solo'') ''sample_*.wav'')))
     = [''voices/solo/sample_001.wav'']"
  by (simp add: str_path_def joinpath_def Path_def splitroot_def is_anchored_def studio_world_def)


lemma guest_samples:
  "sort (glob_glob studio_world (str_path (joinpath (Path ''voices/guest'') ''sample_*.wav''))) = []"
  by (simp add: str_path_def joinpath_def Path_def splitroot_def is_anchored_def studio_world_def
      demo_world_def)

lemma pcm_loads:
  "pcm_load ''voices/my_voice/sample_001.wav'' = Inr take_one"
  "pcm_load ''voices/my_voice/sample_002.wav'' = Inl OtherException"
  "pcm_load ''voices/my_voice/sample_003.wav'' = Inr take_three"
  "pcm_load ''voices/solo/sample_001.wav'' = Inr solo_take"
  "pcm_load ''voices/band/sample_001.wav'' = Inr stereo_take"
  "pcm_load ''voices/band/sample_002.wav'' = Inr surround_take"
  by (simp_all add: pcm_load_def)

lemma output_paths:
  "joinpath (Path ''voices/my_voice'') ''combined.wav'' = [''voices'', ''my_voice'', ''combined.wav'']"
  "joinpath (Path ''voices/solo'') ''combined.wav'' = [''voices'', ''solo'', ''combined.wav'']"
  "joinpath (Path ''voices/band'') ''combined.wav'' = [''voices'', ''band'', ''combined.wav'']"
  "str_path [''voices'', ''my_voice'', ''combined.wav''] = ''voices/my_voice/combined.wav''"
  "str_path [''voices'', ''solo'', ''combined.wav''] = ''voices/solo/combined.wav''"
  "str_path [''voices'', ''band'', ''combined.wav''] = ''voices/band/combined.wav''"
  by (simp_all add: str_path_def joinpath_def Path_def splitroot_def is_anchored_def)

lemma take_formats:
  "pcm_channels take_one = 1" "pcm_rate take_one = 11025"
  "pcm_channels take_three = 1" "pcm_rate take_three = 11025"
  "pcm_channels solo_take = 1" "pcm_rate solo_take = 11025"
  "pcm_channels stereo_take = 2" "pcm_rate stereo_take = 11025"
  "pcm_channels surround_take = 6" "pcm_rate surround_take = 11025"
  by (simp_all add: take_one_def take_three_def solo_take_def stereo_take_def surround_take_def)

lemma join_my_voice:
  "join_loaded frame_pydub pcm_empty [take_one, take_three] = Some my_voice_joined"
proof -
  have 1: "pcm_add pcm_empty take_one = Inr take_one"
    by (rule pcm_add_to_empty) (simp_all add: take_formats)
  have 2: "pcm_add take_one (pcm_silent 500)
             = Inr (take_one\<lparr>pcm_frames := pcm_frames take_one @ replicate 5512 0\<rparr>)"
    by (rule pcm_add_mono_pause) (simp_all add: take_formats)
  have 3: "pcm_add (take_one\<lparr>pcm_frames := pcm_frames take_one @ replicate 5512 0\<rparr>) take_three
             = Inr (take_one\<lparr>pcm_frames := pcm_frames take_one @ replicate 5512 0
                                              @ pcm_frames take_three\<rparr>)"
    by (simp add: pcm_add_same_format take_formats)
  have 4: "pcm_add (take_one\<lparr>pcm_frames := pcm_frames take_one @ replicate 5512 0
                                              @ pcm_frames take_three\<rparr>) (pcm_silent 500)
             = Inr my_voice_joined"
    by (simp add: pcm_add_mono_pause take_formats my_voice_joined_def take_one_def take_three_def)
  show ?thesis
    by (simp add: frame_pydub_simps 1 2 3 4)
qed

lemma try_solo:
  "try_add_sample frame_pydub pcm_empty ''voices/solo/sample_001.wav'' = (solo_joined, None)"
proof -
  have 1: "pcm_add pcm_empty solo_take = Inr solo_take"
    by (rule pcm_add_to_empty) (simp_all add: take_formats)
  have 2: "pcm_add solo_take (pcm_silent 500) = Inr solo_joined"
    by (simp add: pcm_add_mono_pause take_formats solo_joined_def solo_take_def)
  show ?thesis
    by (simp add: try_add_sample_def frame_pydub_simps pcm_loads 1 2)
qed


lemma solo_lengths:
  "pcm_len solo_take = 1001"
  "pcm_len solo_joined = 1500"
  "pcm_len (pcm_getitem solo_joined None (Some (- 500))) = 1000"
proof -
  show "pcm_len solo_take = 1001"
    by (simp add: pcm_len_def py_round_div_def solo_take_def Let_def)
  show l: "pcm_len solo_joined = 1500"
    by (simp add: pcm_len_def py_round_div_def solo_joined_def Let_def)
  have r: "pcm_rate solo_joined = 11025"
    by (simp add: solo_joined_def)
  have n: "length (pcm_frames solo_joined) = 16543"
    by (simp add: solo_joined_def)
  have k: "((pcm_len solo_joined - 500) * pcm_rate solo_joined) div 1000 = 11025"
    by (simp add: l r)
  have "pcm_getitem solo_joined None (Some (- 500))
          = solo_joined\<lparr>pcm_frames := take 11025 (pcm_frames solo_joined)\<rparr>"
    using pcm_getitem_drop_500 [of solo_joined] unfolding k
    by (simp add: l n)
  then show "pcm_len (pcm_getitem solo_joined None (Some (- 500))) = 1000"
    by (simp add: pcm_len_def py_round_div_def solo_joined_def Let_def)
qed

lemma my_voice_lengths:
  "pcm_len take_one = 2000"
  "pcm_len take_three = 1000"
  "pcm_len (pcm_getitem my_voice_joined None (Some (- 500))) = 3500"
proof -
  show "pcm_len take_one = 2000"
    by (simp add: pcm_len_def py_round_div_def take_one_def Let_def)
  show "pcm_len take_three = 1000"
    by (simp add: pcm_len_def py_round_div_def take_three_def Let_def)
  have l: "pcm_len my_voice_joined = 4000"
    by (simp add: pcm_len_def py_round_div_def my_voice_joined_def Let_def)
  have r: "pcm_rate my_voice_joined = 11025"
    by (simp add: my_voice_joined_def)
  have n: "length (pcm_frames my_voice_joined) = 44099"
    by (simp add: my_voice_joined_def)
  have k: "((pcm_len my_voice_joined - 500) * pcm_rate my_voice_joined) div 1000 = 38587"
    by (simp add: l r)
  have "pcm_getitem my_voice_joined None (Some (- 500))
          = my_voice_joined\<lparr>pcm_frames := take 38587 (pcm_frames my_voice_joined)\<rparr>"
    using pcm_getitem_drop_500 [of my_voice_joined] unfolding k
    by (simp add: l n)
  then show "pcm_len (pcm_getitem my_voice_joined None (Some (- 500))) = 3500"
    by (simp add: pcm_len_def py_round_div_def n r Let_def)
qed

text \<open>
  The claim on the gaps as it was stated, with the length of the combined audio as the sum of
  the lengths of the loaded samples and of the pauses between them, fails on a
  directory with one sample of 11031 frames at 11025 Hz: the sample is 1001 ms long
  (its length is rounded), the cut \<^verbatim>\<open>[:-500]\<close> is made at the frame of 1000 ms, and the
  export is 1000 ms long.
\<close>

theorem combined_length_counterexample:
  "sort (glob_glob studio_world (str_path (joinpath (Path ''voices/solo'') ''sample_*.wav'')))
     = [''voices/solo/sample_001.wav'']
   \<and> loaded_samples frame_pydub [''voices/solo/sample_001.wav''] = [solo_take]
   \<and> sum_list (map (len frame_pydub) [solo_take]) + 500 * (length [solo_take] - 1) = 1001
   \<and> map (\<lambda>x. len frame_pydub (fst x))
        (exports (snd (combine_samples studio_world frame_pydub ''voices/solo'' ''combined.wav'')))
     = [1000]"
proof -
  have ne: "[''voices/solo/sample_001.wav''] \<noteq> []" by simp
  have "exports (snd (combine_samples studio_world frame_pydub ''voices/solo'' ''combined.wav''))
          = [(pcm_getitem solo_joined None (Some (- 500)), ''voices/solo/combined.wav'')]"
    by (simp add: combine_samples_exports [OF solo_samples [symmetric] ne] try_solo
        frame_pydub_simps output_paths)
  then show ?thesis
    by (simp add: solo_samples frame_pydub_simps pcm_loads solo_lengths)
qed

lemma my_voice_loaded:
  "[take_one, take_three]
     = loaded_samples frame_pydub
         [''voices/my_voice/sample_001.wav'', ''voices/my_voice/sample_002.wav'',
          ''voices/my_voice/sample_003.wav'']"
  by (simp add: frame_pydub_simps pcm_loads)

lemma my_voice_join:
  "join_loaded frame_pydub (seg_empty frame_pydub) [take_one, take_three] = Some my_voice_joined"
  unfolding frame_pydub_simps by (rule join_my_voice)

text \<open>
  The amended statement on \<^verbatim>\<open>voices/my_voice\<close>, where the second sample does not load, and on
  \<^verbatim>\<open>voices/guest\<close>, which has no sample: the export is the two loaded samples with their
  pauses, cut by 500 ms, here 3500 ms for samples of 2000 ms and 1000 ms.
\<close>

theorem combine_samples_appends_pauses_witness:
  "loaded_samples frame_pydub
     (sort (glob_glob studio_world
        (str_path (joinpath (Path ''voices/my_voice'') ''sample_*.wav''))))
     = [take_one, take_three]
   \<and> join_loaded frame_pydub (seg_empty frame_pydub) [take_one, take_three] = Some my_voice_joined
   \<and> exports (snd (combine_samples studio_world frame_pydub ''voices/my_voice'' ''combined.wav''))
     = [(getitem frame_pydub my_voice_joined None (Some (- 500)), ''voices/my_voice/combined.wav'')]
   \<and> map (len frame_pydub) [take_one, take_three] = [2000, 1000]
   \<and> len frame_pydub (getitem frame_pydub my_voice_joined None (Some (- 500))) = 3500
   \<and> combine_samples studio_world frame_pydub ''voices/guest'' ''combined.wav''
     = (Inr None, [AudioPrint NoSamplesFound])"
proof -
  have ne: "[''voices/my_voice/sample_001.wav'', ''voices/my_voice/sample_002.wav'',
             ''voices/my_voice/sample_003.wav''] \<noteq> []"
    by simp
  from combine_samples_appends_pauses [OF demo_samples [symmetric] my_voice_loaded,
      where joined = my_voice_joined and output_name = "''combined.wav''"] ne my_voice_join
  have a: "exports (snd (combine_samples studio_world frame_pydub ''voices/my_voice'' ''combined.wav''))
     = [(getitem frame_pydub my_voice_joined None (Some (- 500)), ''voices/my_voice/combined.wav'')]"
    by (simp only: output_paths) simp
  from combine_samples_appends_pauses [OF guest_samples [symmetric] refl,
      where L = frame_pydub and output_name = "''combined.wav''"]
  have b: "combine_samples studio_world frame_pydub ''voices/guest'' ''combined.wav''
     = (Inr None, [AudioPrint NoSamplesFound])"
    by simp
  have c: "loaded_samples frame_pydub
     (sort (glob_glob studio_world
        (str_path (joinpath (Path ''voices/my_voice'') ''sample_*.wav''))))
     = [take_one, take_three]"
    by (simp only: demo_samples my_voice_loaded [symmetric])
  have d: "map (len frame_pydub) [take_one, take_three] = [2000, 1000]"
    by (simp add: frame_pydub_simps my_voice_lengths)
  have e: "len frame_pydub (getitem frame_pydub my_voice_joined None (Some (- 500))) = 3500"
    by (simp add: frame_pydub_simps my_voice_lengths)
  from a b c d e my_voice_join show ?thesis
    by (simp only: simp_thms)
qed







end
